theory Spec2Isabelle
  imports Complex_Main "HOL-Library.Sublist"
begin

section \<open>Numbers\<close>

text \<open>
  The program computes with JavaScript numbers, which are IEEE 754 doubles. Where a
  result is a quantity (a position, a scale, an eased value) it is modelled as a real
  number and the operation is taken exactly. Where the source divides by a value that
  may be zero, the IEEE result is written out in the definition.

  Where a product is floored to a count of particles, rounding decides which particles
  are drawn, and the product is rounded as the program rounds it. \<open>roundDouble\<close> is
  the rounding of a real number to a double: to the nearest number with a significand of
  53 bits, a tie going to the even significand. This is the rounding of the normal range
  of doubles; overflow to an infinity and the coarser grid of subnormal numbers are not
  modelled. \<open>fmul\<close> is the multiplication of two doubles, and \<open>isDouble\<close> holds of
  the reals that rounding leaves alone.
\<close>

definition roundHalfEven :: "real \<Rightarrow> int" where
  "roundHalfEven q =
     (let f = \<lfloor>q\<rfloor>; r = q - of_int f
      in if r < 1 / 2 then f else if 1 / 2 < r then f + 1 else if even f then f else f + 1)"

definition roundDouble :: "real \<Rightarrow> real" where
  "roundDouble x =
     (if x = 0 then 0
      else (let e = \<lfloor>log 2 \<bar>x\<bar>\<rfloor>; ulp = 2 powr (of_int e - 52)
            in of_int (roundHalfEven (x / ulp)) * ulp))"

definition isDouble :: "real \<Rightarrow> bool" where
  "isDouble x = (roundDouble x = x)"

definition fmul :: "real \<Rightarrow> real \<Rightarrow> real" where
  "fmul a b = roundDouble (a * b)"


text \<open>The double nearest to 0.58.\<close>

definition double058 :: real where
  "double058 = 5224175567749775 / 2 ^ 53"

section \<open>Dispersion state (ChristmasTree.vue)\<close>

text \<open>
  \<^verbatim>\<open>const dispersionState = { current: 0, target: 0 };\<close>
\<close>

record dispersionState =
  current :: real
  target :: real

definition initialDispersion :: dispersionState where
  "initialDispersion = \<lparr>current = 0, target = 0\<rparr>"

text \<open>
  \<^verbatim>\<open>onWheel\<close>: the wheel delta is scaled by 0.001, added to the target, and the
  target is clamped with \<^verbatim>\<open>Math.max(0, Math.min(1.5, target))\<close>.
\<close>

definition onWheel :: "real \<Rightarrow> dispersionState \<Rightarrow> dispersionState" where
  "onWheel deltaY st =
     (let delta = deltaY * 0.001;
          st1 = st\<lparr>target := target st + delta\<rparr>
      in st1\<lparr>target := max 0 (min 1.5 (target st1))\<rparr>)"

text \<open>A sequence of wheel events, handled in order.\<close>

fun onWheels :: "real list \<Rightarrow> dispersionState \<Rightarrow> dispersionState" where
  "onWheels [] st = st"
| "onWheels (d # ds) st = onWheels ds (onWheel d st)"

text \<open>
  The dispersion line of \<^verbatim>\<open>animate\<close>, run once per frame:
  \<^verbatim>\<open>dispersionState.current += (dispersionState.target - dispersionState.current) * 0.05;\<close>
\<close>

definition animateDispersion :: "dispersionState \<Rightarrow> dispersionState" where
  "animateDispersion st = st\<lparr>current := current st + (target st - current st) * 0.05\<rparr>"

text \<open>\<open>n\<close> frames with no input event in between.\<close>

fun animateFrames :: "nat \<Rightarrow> dispersionState \<Rightarrow> dispersionState" where
  "animateFrames 0 st = st"
| "animateFrames (Suc n) st = animateFrames n (animateDispersion st)"

section \<open>Vectors (THREE.Vector3)\<close>

text \<open>
  The vector operations of the three.js library that the program calls, with the
  library's behaviour: \<^verbatim>\<open>normalize()\<close> is \<^verbatim>\<open>divideScalar(this.length() || 1)\<close>, so
  the zero vector stays the zero vector, and \<^verbatim>\<open>divideScalar(s)\<close> is
  \<^verbatim>\<open>multiplyScalar(1 / s)\<close>. The fields \<^verbatim>\<open>x\<close>, \<^verbatim>\<open>y\<close>, \<^verbatim>\<open>z\<close> are named
  \<open>vx\<close>, \<open>vy\<close>, \<open>vz\<close>.
\<close>

record vec3 =
  vx :: real
  vy :: real
  vz :: real

definition Vector3 :: "real \<Rightarrow> real \<Rightarrow> real \<Rightarrow> vec3" where
  "Vector3 a b c = \<lparr>vx = a, vy = b, vz = c\<rparr>"

definition vlength :: "vec3 \<Rightarrow> real" where
  "vlength v = sqrt (vx v * vx v + vy v * vy v + vz v * vz v)"

definition multiplyScalar :: "vec3 \<Rightarrow> real \<Rightarrow> vec3" where
  "multiplyScalar v s = \<lparr>vx = vx v * s, vy = vy v * s, vz = vz v * s\<rparr>"

definition divideScalar :: "vec3 \<Rightarrow> real \<Rightarrow> vec3" where
  "divideScalar v s = multiplyScalar v (1 / s)"

definition normalize :: "vec3 \<Rightarrow> vec3" where
  "normalize v = divideScalar v (if vlength v = 0 then 1 else vlength v)"

definition vadd :: "vec3 \<Rightarrow> vec3 \<Rightarrow> vec3" where
  "vadd a b = \<lparr>vx = vx a + vx b, vy = vy a + vy b, vz = vz a + vz b\<rparr>"

definition addScaledVector :: "vec3 \<Rightarrow> vec3 \<Rightarrow> real \<Rightarrow> vec3" where
  "addScaledVector a v s = \<lparr>vx = vx a + vx v * s, vy = vy a + vy v * s, vz = vz a + vz v * s\<rparr>"

definition lerp :: "vec3 \<Rightarrow> vec3 \<Rightarrow> real \<Rightarrow> vec3" where
  "lerp a v alpha =
     \<lparr>vx = vx a + (vx v - vx a) * alpha,
      vy = vy a + (vy v - vy a) * alpha,
      vz = vz a + (vz v - vz a) * alpha\<rparr>"

definition distanceTo :: "vec3 \<Rightarrow> vec3 \<Rightarrow> real" where
  "distanceTo a v =
     sqrt ((vx a - vx v) * (vx a - vx v) + (vy a - vy v) * (vy a - vy v)
           + (vz a - vz v) * (vz a - vz v))"

section \<open>Particle data (ParticleSystem.ts)\<close>

datatype particleType = Foliage | Decoration | Trunk | Snow | Aura | Gift | Candy

text \<open>
  A colour is kept as the expression that builds it: the claims below never read a
  colour channel. \<open>ColorHex\<close> is \<^verbatim>\<open>new THREE.Color(hex)\<close>, \<open>ColorLerp a b t\<close> is
  \<^verbatim>\<open>a.clone().lerp(b, t)\<close> and \<open>OffsetHSL c h s l\<close> is \<^verbatim>\<open>c.offsetHSL(h, s, l)\<close>.
\<close>

datatype color =
    ColorHex string
  | ColorLerp color color real
  | OffsetHSL color real real real

text \<open>
  The interface \<^verbatim>\<open>ParticleData\<close>. The fields \<^verbatim>\<open>id\<close>, \<^verbatim>\<open>color\<close> and \<^verbatim>\<open>type\<close> are
  named \<open>pid\<close>, \<open>pcolor\<close> and \<open>ptype\<close>.
\<close>

record ParticleData =
  pid :: int
  targetPosition :: vec3
  currentPosition :: vec3
  pcolor :: color
  baseScale :: real
  currentScale :: real
  layer :: int
  phaseOffset :: real
  ptype :: particleType
  explosionVelocity :: vec3

text \<open>The particle lists of the class \<^verbatim>\<open>ParticleSystem\<close>.\<close>

record ParticleSystem =
  particles :: "ParticleData list"
  foliageParticles :: "ParticleData list"
  decorationParticles :: "ParticleData list"
  trunkParticles :: "ParticleData list"
  snowParticles :: "ParticleData list"
  auraParticles :: "ParticleData list"
  giftParticles :: "ParticleData list"
  candyParticles :: "ParticleData list"

definition emptySystem :: ParticleSystem where
  "emptySystem =
     \<lparr>particles = [], foliageParticles = [], decorationParticles = [], trunkParticles = [],
      snowParticles = [], auraParticles = [], giftParticles = [], candyParticles = []\<rparr>"

section \<open>Generation\<close>

text \<open>
  \<^verbatim>\<open>Math.random()\<close> is a source of numbers in \<open>[0, 1)\<close>. It is modelled as a sequence
  \<open>rnd\<close> with a cursor \<open>k\<close>: \<open>rnd k\<close> is the value of the \<open>k\<close>-th call, and every
  generator returns the cursor after its own calls, in the order in which the source
  evaluates them.
\<close>

definition treeHeight :: real where "treeHeight = 13.0"
definition bottomRadius :: real where "bottomRadius = 5.5"
definition topRadius :: real where "topRadius = 0.5"
definition layerCount :: real where "layerCount = 10"
definition particleCount :: nat where "particleCount = 12000"

text \<open>
  \<^verbatim>\<open>const flare = 1.0 + 0.4 * (1.0 - layerProgress);\<close>, under the source comment
  \<^verbatim>\<open>// Local flare factor: 1.0 to 0.6 within a layer\<close>.
\<close>

definition flare :: "real \<Rightarrow> real" where
  "flare layerProgress = 1.0 + 0.4 * (1.0 - layerProgress)"

text \<open>
  The type, scale and colour of a tree particle, chosen by \<open>randType\<close>; the result
  carries the cursor after the draws of the branch taken.
\<close>

definition treeKind :: "(nat \<Rightarrow> real) \<Rightarrow> nat \<Rightarrow> real \<Rightarrow> real \<Rightarrow> particleType \<times> real \<times> color \<times> nat" where
  "treeKind rnd k randType hNorm =
     (if randType < 0.10 then
        (let scale = 0.08 + rnd k * 0.08;
             rand = rnd (k + 1);
             c = (if rand < 0.4 then ColorHex ''#FFD700''
                  else if rand < 0.7 then ColorHex ''#D42426''
                  else if rand < 0.9 then ColorHex ''#C0C0C0''
                  else ColorHex ''#00BFFF'')
         in (Decoration, scale, c, k + 2))
      else if randType < 0.15 then
        (let scale = 0.18 + rnd k * 0.1;
             c = ColorHex (if rnd (k + 1) < 0.5 then ''#D42426'' else ''#2ecc71'')
         in (Gift, scale, c, k + 2))
      else if randType < 0.20 then
        (let scale = 0.12 + rnd k * 0.1
         in (Candy, scale, ColorHex ''#ffffff'', k + 1))
      else
        (let scale = 0.03 + rnd k * 0.04;
             c = OffsetHSL (ColorLerp (ColorHex ''#0f3b0f'') (ColorHex ''#2ecc71'') hNorm)
                   0 0 ((rnd (k + 1) - 0.5) * 0.15)
         in (Foliage, scale, c, k + 2)))"

text \<open>The body of the loop of \<^verbatim>\<open>generateTreeData\<close> for the index \<open>i\<close>.\<close>

definition treeParticle :: "(nat \<Rightarrow> real) \<Rightarrow> nat \<Rightarrow> nat \<Rightarrow> ParticleData \<times> nat" where
  "treeParticle rnd k i =
     (let hNorm0 = rnd k powr 0.8;
          exactLayer = hNorm0 * layerCount;
          layerIndex = \<lfloor>exactLayer\<rfloor>;
          layerResidue = exactLayer - of_int layerIndex;
          tightResidue = 0.5 + (layerResidue - 0.5) * 0.7;
          hNorm = (of_int layerIndex + tightResidue) / layerCount;
          y = hNorm * treeHeight;
          currentMaxRadius = bottomRadius - (y / treeHeight) * (bottomRadius - topRadius);
          layerProgress = layerResidue;
          baseR = currentMaxRadius * flare layerProgress;
          noise = sin (y * 2.0) * cos (real i * 0.1) * 0.5 + 0.5;
          irregularity = 0.8 + 0.4 * noise;
          rRatio = (0.3 + 0.7 * sqrt (rnd (k + 1))) * irregularity;
          r = baseR * rRatio;
          angle = rnd (k + 2) * pi * 2;
          x = cos angle * r;
          z = sin angle * r;
          targetPos = Vector3 x (y + 2.0) z;
          explosionVec0 = normalize targetPos;
          explosionVec1 = explosionVec0\<lparr>vy := vy explosionVec0 + (rnd (k + 3) - 0.5) * 0.5\<rparr>;
          explosionVec = normalize explosionVec1;
          randType = rnd (k + 4);
          (type, scale, c, k1) = treeKind rnd (k + 5) randType hNorm;
          particle =
            \<lparr>pid = int i,
             targetPosition = targetPos,
             currentPosition =
               Vector3 ((rnd k1 - 0.5) * 60) ((rnd (k1 + 1) - 0.5) * 60) ((rnd (k1 + 2) - 0.5) * 60),
             pcolor = c,
             baseScale = scale,
             currentScale = 0,
             layer = layerIndex,
             phaseOffset = rnd (k1 + 3) * 10,
             ptype = type,
             explosionVelocity = explosionVec\<rparr>
      in (particle, k1 + 4))"

text \<open>
  \<^verbatim>\<open>this.particles.push(particle)\<close> followed by the push onto the list of the
  particle's type.
\<close>

definition pushTyped :: "ParticleData \<Rightarrow> ParticleSystem \<Rightarrow> ParticleSystem" where
  "pushTyped p ps =
     (let ps1 = ps\<lparr>particles := particles ps @ [p]\<rparr>
      in case ptype p of
           Foliage \<Rightarrow> ps1\<lparr>foliageParticles := foliageParticles ps1 @ [p]\<rparr>
         | Decoration \<Rightarrow> ps1\<lparr>decorationParticles := decorationParticles ps1 @ [p]\<rparr>
         | Gift \<Rightarrow> ps1\<lparr>giftParticles := giftParticles ps1 @ [p]\<rparr>
         | Candy \<Rightarrow> ps1\<lparr>candyParticles := candyParticles ps1 @ [p]\<rparr>
         | Trunk \<Rightarrow> ps1\<lparr>trunkParticles := trunkParticles ps1 @ [p]\<rparr>
         | Snow \<Rightarrow> ps1\<lparr>snowParticles := snowParticles ps1 @ [p]\<rparr>
         | Aura \<Rightarrow> ps1\<lparr>auraParticles := auraParticles ps1 @ [p]\<rparr>)"

text \<open>
  A generation loop \<^verbatim>\<open>for (let i = 0; i < count; i++)\<close>: \<open>n\<close> is the number of
  iterations left, \<open>i\<close> the loop index, \<open>body\<close> the loop body.
\<close>

fun generateLoop ::
  "((nat \<Rightarrow> real) \<Rightarrow> nat \<Rightarrow> nat \<Rightarrow> ParticleData \<times> nat) \<Rightarrow> (nat \<Rightarrow> real) \<Rightarrow> nat \<Rightarrow> nat \<Rightarrow>
   nat \<times> ParticleSystem \<Rightarrow> nat \<times> ParticleSystem" where
  "generateLoop body rnd 0 i (k, ps) = (k, ps)"
| "generateLoop body rnd (Suc n) i (k, ps) =
     (let (p, k1) = body rnd k i
      in generateLoop body rnd n (Suc i) (k1, pushTyped p ps))"

definition generateTreeData :: "(nat \<Rightarrow> real) \<Rightarrow> nat \<times> ParticleSystem \<Rightarrow> nat \<times> ParticleSystem" where
  "generateTreeData rnd = generateLoop treeParticle rnd particleCount 0"

definition trunkHeight :: real where "trunkHeight = 6.0"
definition trunkRadius :: real where "trunkRadius = 1.4"
definition trunkCount :: nat where "trunkCount = 3000"

definition trunkParticle :: "(nat \<Rightarrow> real) \<Rightarrow> nat \<Rightarrow> nat \<Rightarrow> ParticleData \<times> nat" where
  "trunkParticle rnd k i =
     (let h = rnd k * trunkHeight;
          angle = rnd (k + 1) * pi * 2;
          r = (0.4 + 0.6 * sqrt (rnd (k + 2))) * trunkRadius;
          x = cos angle * r;
          z = sin angle * r;
          y = h - 2.0;
          targetPos = Vector3 x y z;
          explosionVec0 = normalize (Vector3 x 0 z);
          explosionVec1 = explosionVec0\<lparr>vy := (rnd (k + 3) - 0.5) * 0.2\<rparr>;
          explosionVec = normalize explosionVec1;
          c = OffsetHSL (ColorHex ''#4a3c31'') 0 0 ((rnd (k + 4) - 0.5) * 0.15);
          particle =
            \<lparr>pid = - 1,
             targetPosition = targetPos,
             currentPosition = Vector3 ((rnd (k + 5) - 0.5) * 30) (- 30) ((rnd (k + 6) - 0.5) * 30),
             pcolor = c,
             baseScale = 0.06 + rnd (k + 7) * 0.05,
             currentScale = 0,
             layer = - 1,
             phaseOffset = rnd (k + 8) * 5,
             ptype = Trunk,
             explosionVelocity = explosionVec\<rparr>
      in (particle, k + 9))"

definition generateTrunkData :: "(nat \<Rightarrow> real) \<Rightarrow> nat \<times> ParticleSystem \<Rightarrow> nat \<times> ParticleSystem" where
  "generateTrunkData rnd = generateLoop trunkParticle rnd trunkCount 0"

definition snowCount :: nat where "snowCount = 3000"

definition snowParticle :: "(nat \<Rightarrow> real) \<Rightarrow> nat \<Rightarrow> nat \<Rightarrow> ParticleData \<times> nat" where
  "snowParticle rnd k i =
     (let particle =
            \<lparr>pid = - 2,
             targetPosition = Vector3 0 0 0,
             currentPosition =
               Vector3 ((rnd k - 0.5) * 80) (rnd (k + 1) * 60 - 10) ((rnd (k + 2) - 0.5) * 80),
             pcolor = ColorHex ''0xffffff'',
             baseScale = 0.04 + rnd (k + 3) * 0.06,
             currentScale = 0.04 + rnd (k + 4) * 0.06,
             layer = - 2,
             phaseOffset = rnd (k + 5) * 20,
             ptype = Snow,
             explosionVelocity = Vector3 0 (- 1) 0\<rparr>
      in (particle, k + 6))"

definition generateSnowData :: "(nat \<Rightarrow> real) \<Rightarrow> nat \<times> ParticleSystem \<Rightarrow> nat \<times> ParticleSystem" where
  "generateSnowData rnd = generateLoop snowParticle rnd snowCount 0"

definition auraCount :: nat where "auraCount = 500"

definition auraParticle :: "(nat \<Rightarrow> real) \<Rightarrow> nat \<Rightarrow> nat \<Rightarrow> ParticleData \<times> nat" where
  "auraParticle rnd k i =
     (let theta = rnd k * pi * 2;
          phi = arccos (2 * rnd (k + 1) - 1);
          r = 10 + rnd (k + 2) * 15;
          x = r * sin phi * cos theta;
          y = r * sin phi * sin theta + 8;
          z = r * cos phi;
          particle =
            \<lparr>pid = - 3,
             targetPosition = Vector3 x y z,
             currentPosition = Vector3 x y z,
             pcolor = ColorHex ''0xffd700'',
             baseScale = 0.03 + rnd (k + 3) * 0.04,
             currentScale = 0,
             layer = - 3,
             phaseOffset = rnd (k + 4) * 10,
             ptype = Aura,
             explosionVelocity = normalize (Vector3 x y z)\<rparr>
      in (particle, k + 5))"

definition generateAuraData :: "(nat \<Rightarrow> real) \<Rightarrow> nat \<times> ParticleSystem \<Rightarrow> nat \<times> ParticleSystem" where
  "generateAuraData rnd = generateLoop auraParticle rnd auraCount 0"

text \<open>
  The data generation of the constructor: the four generators in the source's order,
  on one random sequence.
\<close>

definition generateAll :: "(nat \<Rightarrow> real) \<Rightarrow> ParticleSystem" where
  "generateAll rnd =
     snd (generateAuraData rnd (generateSnowData rnd (generateTrunkData rnd
            (generateTreeData rnd (0, emptySystem)))))"

text \<open>The seven population lists, in the order of the instanced meshes.\<close>

definition populations :: "ParticleSystem \<Rightarrow> ParticleData list list" where
  "populations ps =
     [foliageParticles ps, decorationParticles ps, trunkParticles ps, snowParticles ps,
      auraParticles ps, giftParticles ps, candyParticles ps]"

section \<open>The per-frame update (ParticleSystem.update)\<close>

text \<open>
  An instance matrix is kept as the call that builds it. \<open>Compose p r s\<close> is the
  matrix of the scratch object \<^verbatim>\<open>this.dummy\<close> after \<^verbatim>\<open>updateMatrix()\<close>, with position
  \<open>p\<close>, rotation \<open>r\<close> and scale \<open>s\<close>; \<open>MakeScale a b c\<close> is
  \<^verbatim>\<open>new THREE.Matrix4().makeScale(a, b, c)\<close>. A rotation is either the Euler angles
  given to \<^verbatim>\<open>rotation.set\<close> or the orientation left by \<^verbatim>\<open>lookAt\<close> towards a point.
\<close>

datatype rotation = Euler real real real | LookAt vec3

datatype matrix4 = Compose vec3 rotation vec3 | MakeScale real real real

text \<open>
  The two instance buffers of a \<^verbatim>\<open>THREE.InstancedMesh\<close>. A write past the end of
  a buffer has no effect, as \<open>xs[i := v]\<close> has none. The \<^verbatim>\<open>needsUpdate\<close> flags are
  not modelled.
\<close>

record mesh =
  instanceMatrix :: "matrix4 list"
  instanceColor :: "color list"

definition setMatrixAt :: "mesh \<Rightarrow> nat \<Rightarrow> matrix4 \<Rightarrow> mesh" where
  "setMatrixAt m i mat = m\<lparr>instanceMatrix := (instanceMatrix m)[i := mat]\<rparr>"

definition setColorAt :: "mesh \<Rightarrow> nat \<Rightarrow> color \<Rightarrow> mesh" where
  "setColorAt m i c = m\<lparr>instanceColor := (instanceColor m)[i := c]\<rparr>"

text \<open>The arguments of \<^verbatim>\<open>update\<close>.\<close>

record frameInput =
  time :: real
  mousePos :: "vec3 option"
  dispersion :: real
  twinkleSpeed :: real
  snowDensity :: real
  snowSpeed :: real
  treeDensity :: real
  decorationDensity :: real

text \<open>
  The factor of the lines under \<^verbatim>\<open>// Scale & Breath\<close>:
  \<^verbatim>\<open>scale *= (1 + Math.sin((timeOffset / (1.0 / twinkleSpeed)) * Math.PI * 2) * 0.4)\<close>
  for a decoration list and
  \<^verbatim>\<open>scale *= (1 + Math.sin((timeOffset / 4.0) * Math.PI * 2) * 0.05)\<close> otherwise.
  For \<^verbatim>\<open>twinkleSpeed\<close> zero, \<^verbatim>\<open>1.0 / twinkleSpeed\<close> is \<^verbatim>\<open>Infinity\<close> and a finite
  \<^verbatim>\<open>timeOffset\<close> divided by it is zero.
\<close>

definition oscillation :: "bool \<Rightarrow> real \<Rightarrow> real \<Rightarrow> real" where
  "oscillation isDeco speed timeOffset =
     (if isDeco then
        1 + sin ((if speed = 0 then 0 else timeOffset / (1.0 / speed)) * pi * 2) * 0.4
      else
        1 + sin ((timeOffset / 4.0) * pi * 2) * 0.05)"

text \<open>The hover test of \<^verbatim>\<open>updateList\<close>, on the position already moved this frame.\<close>

definition hovered :: "frameInput \<Rightarrow> vec3 \<Rightarrow> bool" where
  "hovered a pos =
     (case mousePos a of
        None \<Rightarrow> False
      | Some m \<Rightarrow> dispersion a < 0.1 \<and> distanceTo pos m < 1.5)"

text \<open>
  The body of the first loop of \<^verbatim>\<open>updateList\<close> for one particle: \<open>random\<close> is the
  value of its call of \<^verbatim>\<open>Math.random()\<close>. The result is the particle with its moved
  \<^verbatim>\<open>currentPosition\<close> and the matrix written to its instance slot.
\<close>

definition drawParticle :: "frameInput \<Rightarrow> bool \<Rightarrow> real \<Rightarrow> ParticleData \<Rightarrow> ParticleData \<times> matrix4" where
  "drawParticle a isDeco random p =
     (let explodeDist = dispersion a * (25 + random * 15);
          desiredX = vx (targetPosition p) + vx (explosionVelocity p) * explodeDist;
          desiredY = vy (targetPosition p) + vy (explosionVelocity p) * explodeDist;
          desiredZ = vz (targetPosition p) + vz (explosionVelocity p) * explodeDist;
          pos = \<lparr>vx = vx (currentPosition p) + (desiredX - vx (currentPosition p)) * 0.1,
                 vy = vy (currentPosition p) + (desiredY - vy (currentPosition p)) * 0.1,
                 vz = vz (currentPosition p) + (desiredZ - vz (currentPosition p)) * 0.1\<rparr>;
          timeOffset = time a + phaseOffset p;
          scale1 = currentScale p * oscillation isDeco (twinkleSpeed a) timeOffset;
          scale = (if hovered a pos then scale1 * 2.0 else scale1);
          rot = (if isDeco then
                   (if ptype p = Gift \<or> ptype p = Candy
                    then Euler (time a * 0.5 + of_int (pid p)) (time a * 0.5) (of_int (pid p))
                    else Euler (time a + of_int (pid p)) (time a * 0.5) 0)
                 else Euler 0 0 0)
      in (p\<lparr>currentPosition := pos\<rparr>, Compose pos rot (Vector3 scale scale scale)))"

text \<open>
  \<^verbatim>\<open>const visibleCount = Math.floor(list.length * Math.min(1.0, density * densityMultiplier));\<close>
  Both products are products of doubles; \<^verbatim>\<open>list.length\<close> is an integer below
  \<open>2\<^sup>3\<^sup>2\<close>, which a double holds exactly.
\<close>

definition visibleCount :: "ParticleData list \<Rightarrow> real \<Rightarrow> real \<Rightarrow> int" where
  "visibleCount list density densityMultiplier =
     \<lfloor>fmul (real (length list)) (min 1.0 (fmul density densityMultiplier))\<rfloor>"

text \<open>
  The first loop of \<^verbatim>\<open>updateList\<close>, \<^verbatim>\<open>for (; i < visibleCount; i++)\<close>, on the state
  (particle list, mesh, random cursor). An index with no particle is skipped by
  \<^verbatim>\<open>if (!p) continue;\<close>. The loop returns the final value of \<open>i\<close> with the state.
\<close>

function drawLoop ::
  "frameInput \<Rightarrow> bool \<Rightarrow> (nat \<Rightarrow> real) \<Rightarrow> int \<Rightarrow> nat \<Rightarrow> ParticleData list \<times> mesh \<times> nat \<Rightarrow>
   nat \<times> ParticleData list \<times> mesh \<times> nat" where
  "drawLoop a isDeco rnd vc i (list, m, k) =
     (if int i < vc then
        (if i < length list then
           (let (p, mat) = drawParticle a isDeco (rnd k) (list ! i)
            in drawLoop a isDeco rnd vc (Suc i)
                 (list[i := p], setColorAt (setMatrixAt m i mat) i (pcolor p), Suc k))
         else drawLoop a isDeco rnd vc (Suc i) (list, m, k))
      else (i, list, m, k))"
  by pat_completeness auto
termination
  by (relation "measure (\<lambda>(a, isDeco, rnd, vc, i, st). nat (vc - int i))") auto

text \<open>
  The second loop, \<^verbatim>\<open>for (; i < list.length; i++)\<close>, which writes the zero-scale
  matrix to the remaining slots; \<open>n\<close> is \<^verbatim>\<open>list.length\<close>.
\<close>

function hideLoop :: "nat \<Rightarrow> nat \<Rightarrow> mesh \<Rightarrow> mesh" where
  "hideLoop n i m =
     (if i < n then hideLoop n (Suc i) (setMatrixAt m i (MakeScale 0 0 0)) else m)"
  by pat_completeness auto
termination
  by (relation "measure (\<lambda>(n, i, m). n - i)") auto

text \<open>
  The helper \<^verbatim>\<open>updateList(list, mesh, isDeco = false, densityMultiplier = 1.0)\<close> of
  \<^verbatim>\<open>update\<close>; \<open>k\<close> is the random cursor.
\<close>

definition updateList ::
  "frameInput \<Rightarrow> (nat \<Rightarrow> real) \<Rightarrow> ParticleData list \<Rightarrow> mesh \<Rightarrow> bool \<Rightarrow> real \<Rightarrow> nat \<Rightarrow>
   ParticleData list \<times> mesh \<times> nat" where
  "updateList a rnd list m isDeco densityMultiplier k =
     (let density = (if isDeco then decorationDensity a else treeDensity a);
          vc = visibleCount list density densityMultiplier;
          (i, list1, m1, k1) = drawLoop a isDeco rnd vc 0 (list, m, k);
          m2 = hideLoop (length list) i m1
      in (list1, m2, k1))"

text \<open>
  The body of \<^verbatim>\<open>updateSnow\<close> for the particle at index \<open>i\<close>, and its loop over the
  snow list.
\<close>

definition snowStep :: "frameInput \<Rightarrow> (nat \<Rightarrow> real) \<Rightarrow> nat \<Rightarrow> ParticleData \<Rightarrow> ParticleData \<times> matrix4 \<times> nat" where
  "snowStep a rnd k p =
     (let speed = (0.05 + rnd k * 0.05) * snowSpeed a;
          y1 = vy (currentPosition p) - speed;
          x1 = vx (currentPosition p) + sin (time a + phaseOffset p) * 0.01 * snowSpeed a;
          z1 = vz (currentPosition p) + cos (time a * 0.8 + phaseOffset p) * 0.01 * snowSpeed a;
          (pos, k1) =
            (if y1 < - 10
             then (Vector3 ((rnd (k + 1) - 0.5) * 80) 30 ((rnd (k + 2) - 0.5) * 80), k + 3)
             else (Vector3 x1 y1 z1, k + 1));
          s = baseScale p * (0.8 + rnd k1 * 0.4)
      in (p\<lparr>currentPosition := pos\<rparr>,
          Compose pos (Euler (time a) (time a) (time a)) (Vector3 s s s), k1 + 1))"

fun snowLoop ::
  "frameInput \<Rightarrow> (nat \<Rightarrow> real) \<Rightarrow> int \<Rightarrow> nat \<Rightarrow> ParticleData list \<Rightarrow> mesh \<Rightarrow> nat \<Rightarrow>
   ParticleData list \<times> mesh \<times> nat" where
  "snowLoop a rnd visibleSnow i [] m k = ([], m, k)"
| "snowLoop a rnd visibleSnow i (p # ps) m k =
     (if int i \<ge> visibleSnow then
        (let (ps1, m1, k1) = snowLoop a rnd visibleSnow (Suc i) ps (setMatrixAt m i (MakeScale 0 0 0)) k
         in (p # ps1, m1, k1))
      else
        (let (p1, mat, k1) = snowStep a rnd k p;
             (ps2, m2, k2) = snowLoop a rnd visibleSnow (Suc i) ps (setMatrixAt m i mat) k1
         in (p1 # ps2, m2, k2)))"

definition updateSnow ::
  "frameInput \<Rightarrow> (nat \<Rightarrow> real) \<Rightarrow> ParticleData list \<Rightarrow> mesh \<Rightarrow> nat \<Rightarrow> ParticleData list \<times> mesh \<times> nat" where
  "updateSnow a rnd list m k =
     (let visibleSnow = \<lfloor>fmul (real (length list)) (snowDensity a)\<rfloor>
      in snowLoop a rnd visibleSnow 0 list m k)"

text \<open>
  The callback of \<^verbatim>\<open>this.auraParticles.forEach\<close> in \<^verbatim>\<open>updateAura\<close>, and the
  iteration over the aura list; \<open>i\<close> is the index the callback receives.
\<close>

definition auraStep :: "frameInput \<Rightarrow> ParticleData \<Rightarrow> ParticleData \<times> matrix4" where
  "auraStep a p =
     (let y1 = vy (currentPosition p) + sin (time a + of_int (pid p)) * 0.01;
          x = vx (currentPosition p) * cos 0.002 - vz (currentPosition p) * sin 0.002;
          z = vx (currentPosition p) * sin 0.002 + vz (currentPosition p) * cos 0.002;
          pos = \<lparr>vx = x, vy = y1, vz = z\<rparr>;
          s = currentScale p * (0.8 + 0.4 * sin (time a * 2 + of_int (pid p)))
      in (p\<lparr>currentPosition := pos\<rparr>, Compose pos (LookAt (Vector3 0 y1 0)) (Vector3 s s s)))"

fun auraLoop :: "frameInput \<Rightarrow> nat \<Rightarrow> ParticleData list \<Rightarrow> mesh \<Rightarrow> ParticleData list \<times> mesh" where
  "auraLoop a i [] m = ([], m)"
| "auraLoop a i (p # ps) m =
     (let (p1, mat) = auraStep a p;
          (ps1, m1) = auraLoop a (Suc i) ps (setMatrixAt m i mat)
      in (p1 # ps1, m1))"

definition updateAura :: "frameInput \<Rightarrow> ParticleData list \<Rightarrow> mesh \<Rightarrow> ParticleData list \<times> mesh" where
  "updateAura a list m = auraLoop a 0 list m"

text \<open>
  The particle system with its seven instanced meshes, in the order in which
  \<^verbatim>\<open>createMeshes\<close> pushes them: foliage, decoration, trunk, snow, aura, gift, candy.
\<close>

record renderState =
  system :: ParticleSystem
  meshes :: "mesh list"

text \<open>
  \<^verbatim>\<open>update\<close>: the five calls of \<^verbatim>\<open>updateList\<close>, then \<^verbatim>\<open>updateSnow\<close> and
  \<^verbatim>\<open>updateAura\<close>. The constructor creates all seven meshes; \<open>update\<close> is defined on
  such a state. The list \<^verbatim>\<open>particles\<close> shares its objects with the population lists;
  \<^verbatim>\<open>update\<close> never reads it, and the model leaves it as generated.
\<close>

definition update :: "frameInput \<Rightarrow> (nat \<Rightarrow> real) \<Rightarrow> nat \<Rightarrow> renderState \<Rightarrow> renderState \<times> nat" where
  "update a rnd k st =
     (let ps = system st; ms = meshes st;
          (fol, m0, k0) = updateList a rnd (foliageParticles ps) (ms ! 0) False 1.0 k;
          (dec, m1, k1) = updateList a rnd (decorationParticles ps) (ms ! 1) True 1.0 k0;
          (tru, m2, k2) = updateList a rnd (trunkParticles ps) (ms ! 2) False 1.0 k1;
          (gif, m5, k5) = updateList a rnd (giftParticles ps) (ms ! 5) True 1.0 k2;
          (can, m6, k6) = updateList a rnd (candyParticles ps) (ms ! 6) True 1.0 k5;
          (sno, m3, k3) = updateSnow a rnd (snowParticles ps) (ms ! 3) k6;
          (aur, m4) = updateAura a (auraParticles ps) (ms ! 4)
      in (\<lparr>system = ps\<lparr>foliageParticles := fol, decorationParticles := dec, trunkParticles := tru,
                         giftParticles := gif, candyParticles := can, snowParticles := sno,
                         auraParticles := aur\<rparr>,
           meshes = [m0, m1, m2, m3, m4, m5, m6]\<rparr>, k3))"



section \<open>Cards (OrnamentSystem)\<close>

text \<open>
  The \<^verbatim>\<open>userData\<close> of a card mesh: the fields of its \<^verbatim>\<open>Ornament\<close> entry and the
  fields \<^verbatim>\<open>createOrnaments\<close> adds. \<^verbatim>\<open>id\<close> is named \<open>ornamentId\<close>; the configured
  \<^verbatim>\<open>position\<close> and \<^verbatim>\<open>scale\<close> are named \<open>dataPosition\<close> and \<open>dataScale\<close>, and
  \<^verbatim>\<open>explosionVelocity\<close> is named \<open>cardExplosionVelocity\<close>. \<^verbatim>\<open>isExpanded\<close> is absent
  (falsy) until a click sets it; absent is \<open>False\<close> here.
\<close>

record userData =
  ornamentId :: string
  src :: string
  title :: string
  description :: string
  dataPosition :: vec3
  dataScale :: real
  isOrnament :: bool
  originalPosition :: vec3
  originalRotation :: rotation
  originalScale :: vec3
  cardExplosionVelocity :: vec3
  isExpanded :: bool

text \<open>A loaded texture, named by the image source it was loaded from.\<close>

datatype texture = Texture string

text \<open>
  A card mesh: its transform, the \<^verbatim>\<open>map\<close> of its own material, its \<^verbatim>\<open>userData\<close>,
  and the size of the box geometry of its invisible hit-box child.
\<close>

record ornamentMesh =
  position :: vec3
  rotation :: rotation
  scale :: vec3
  materialMap :: "texture option"
  userData :: userData
  hitBox :: vec3

text \<open>
  The class \<^verbatim>\<open>OrnamentSystem\<close>: the list \<^verbatim>\<open>ornaments\<close>, and the texture loads that
  \<^verbatim>\<open>updateTexture\<close> has started and that have not called back yet, each with the index
  of the mesh its callback closes over and the source it loads.
\<close>

record ornamentSystem =
  ornaments :: "ornamentMesh list"
  pendingLoads :: "(nat \<times> string) list"

text \<open>\<^verbatim>\<open>Array.prototype.find\<close>, returning the index of the first match.\<close>

fun findIndex :: "('a \<Rightarrow> bool) \<Rightarrow> 'a list \<Rightarrow> nat option" where
  "findIndex P [] = None"
| "findIndex P (x # xs) = (if P x then Some 0 else map_option Suc (findIndex P xs))"

text \<open>
  \<^verbatim>\<open>updateTexture(id, src)\<close>: looks the card up and, when there is one, starts a
  texture load. The call itself changes no mesh.
\<close>

definition updateTexture :: "string \<Rightarrow> string \<Rightarrow> ornamentSystem \<Rightarrow> ornamentSystem" where
  "updateTexture ident source st =
     (case findIndex (\<lambda>mesh. ornamentId (userData mesh) = ident) (ornaments st) of
        None \<Rightarrow> st
      | Some i \<Rightarrow> st\<lparr>pendingLoads := pendingLoads st @ [(i, source)]\<rparr>)"

text \<open>
  The load callback of \<^verbatim>\<open>updateTexture\<close>, run when the pending load number \<open>n\<close>
  succeeds: \<^verbatim>\<open>mat.map = texture\<close> on the material of the mesh found. A load that
  fails never calls back and is dropped.
\<close>

definition textureLoaded :: "nat \<Rightarrow> ornamentSystem \<Rightarrow> ornamentSystem" where
  "textureLoaded n st =
     (if n < length (pendingLoads st) then
        (let (i, source) = pendingLoads st ! n
         in st\<lparr>ornaments := (ornaments st)[i := (ornaments st ! i)\<lparr>materialMap := Some (Texture source)\<rparr>],
               pendingLoads := take n (pendingLoads st) @ drop (Suc n) (pendingLoads st)\<rparr>)
      else st)"

definition textureFailed :: "nat \<Rightarrow> ornamentSystem \<Rightarrow> ornamentSystem" where
  "textureFailed n st =
     st\<lparr>pendingLoads := take n (pendingLoads st) @ drop (Suc n) (pendingLoads st)\<rparr>"

text \<open>
  The callback of \<^verbatim>\<open>this.ornaments.forEach\<close> in \<^verbatim>\<open>OrnamentSystem.update\<close> for the
  mesh at index \<open>i\<close>.
\<close>

definition ornamentStep :: "real \<Rightarrow> real \<Rightarrow> nat \<Rightarrow> ornamentMesh \<Rightarrow> ornamentMesh" where
  "ornamentStep t disp i m =
     (if isExpanded (userData m) then m
      else
        (let p = userData m;
             explodeDist = disp * 20.0;
             targetPos = (if disp > 0.01
                          then addScaledVector (originalPosition p) (cardExplosionVelocity p) explodeDist
                          else originalPosition p);
             pos = lerp (position m) targetPos 0.1;
             pos1 = (if disp < 0.2 then pos\<lparr>vy := vy pos + sin (t + real i) * 0.002\<rparr> else pos)
         in m\<lparr>position := pos1\<rparr>))"

fun ornamentLoop :: "real \<Rightarrow> real \<Rightarrow> nat \<Rightarrow> ornamentMesh list \<Rightarrow> ornamentMesh list" where
  "ornamentLoop t disp i [] = []"
| "ornamentLoop t disp i (m # ms) = ornamentStep t disp i m # ornamentLoop t disp (Suc i) ms"

text \<open>\<^verbatim>\<open>OrnamentSystem.update(time, dispersion)\<close>.\<close>

definition ornamentUpdate :: "real \<Rightarrow> real \<Rightarrow> ornamentSystem \<Rightarrow> ornamentSystem" where
  "ornamentUpdate t disp st = st\<lparr>ornaments := ornamentLoop t disp 0 (ornaments st)\<rparr>"

text \<open>A run of frames, each with its time and dispersion.\<close>

fun ornamentFrames :: "(real \<times> real) list \<Rightarrow> ornamentSystem \<Rightarrow> ornamentSystem" where
  "ornamentFrames [] st = st"
| "ornamentFrames ((t, disp) # fs) st = ornamentFrames fs (ornamentUpdate t disp st)"

section \<open>Card selection (ChristmasTree.vue)\<close>

text \<open>
  A tween started by \<^verbatim>\<open>gsap.to(object, {x, y, z, duration, ease, onComplete})\<close> of the
  gsap library, where the object is the position, rotation or scale of the card mesh at
  index \<open>tweenMesh\<close>. When a tween completes, the three components of its object
  equal \<open>tweenTo\<close>, and its \<^verbatim>\<open>onComplete\<close> callback runs. The only callback in these
  functions is the one of \<^verbatim>\<open>handleOrnamentClick\<close>, which shows the viewer;
  \<open>showsViewer\<close> says whether the tween carries it.
\<close>

datatype tweenProperty = TweenPosition | TweenRotation | TweenScale

record tween =
  tweenMesh :: nat
  tweenProperty :: tweenProperty
  tweenTo :: vec3
  duration :: real
  ease :: string
  showsViewer :: bool

text \<open>
  The state of the component that these functions use: the card system, gsap's
  running tweens, \<^verbatim>\<open>viewerVisible\<close>, and \<^verbatim>\<open>selectedOrnament\<close> as the index of the
  card whose \<^verbatim>\<open>userData\<close> it holds.
\<close>

record viewState =
  ornamentSystem :: ornamentSystem
  tweens :: "tween list"
  viewerVisible :: bool
  selectedOrnament :: "nat option"

text \<open>
  The object handed to \<^verbatim>\<open>handleOrnamentClick\<close>: a card mesh, or the hit box of a card,
  whose \<^verbatim>\<open>userData.parent\<close> is that card. Both carry the index of the card.
\<close>

datatype clicked = CardMesh nat | HitBoxOf nat

definition mapOrnament :: "nat \<Rightarrow> (ornamentMesh \<Rightarrow> ornamentMesh) \<Rightarrow> viewState \<Rightarrow> viewState" where
  "mapOrnament i f st =
     st\<lparr>ornamentSystem :=
          (ornamentSystem st)\<lparr>ornaments :=
             (ornaments (ornamentSystem st))[i := f (ornaments (ornamentSystem st) ! i)]\<rparr>\<rparr>"

text \<open>
  \<^verbatim>\<open>handleOrnamentClick(mesh)\<close>: resolves the target with
  \<^verbatim>\<open>mesh.userData.parent || mesh\<close>, kills the running tweens of the target's position,
  rotation and scale, and starts the position tween and the scale tween. The local
  \<^verbatim>\<open>originalScale\<close> is named \<open>originalScl\<close>.
\<close>

definition handleOrnamentClick :: "clicked \<Rightarrow> viewState \<Rightarrow> viewState" where
  "handleOrnamentClick obj st =
     (let i = (case obj of HitBoxOf parent \<Rightarrow> parent | CardMesh own \<Rightarrow> own);
          target = ornaments (ornamentSystem st) ! i;
          originalPos = originalPosition (userData target);
          originalScl = originalScale (userData target);
          running = filter (\<lambda>tw. tweenMesh tw \<noteq> i) (tweens st);
          outDir = multiplyScalar (normalize originalPos) 2.0;
          targetPos = vadd originalPos outDir;
          moveOut = \<lparr>tweenMesh = i, tweenProperty = TweenPosition, tweenTo = targetPos,
                     duration = 0.5, ease = ''back.out(1.2)'', showsViewer = False\<rparr>;
          scaleUp = \<lparr>tweenMesh = i, tweenProperty = TweenScale,
                     tweenTo = Vector3 (vx originalScl * 1.5) (vy originalScl * 1.5)
                                 (vz originalScl * 1.5),
                     duration = 0.5, ease = ''power2.out'', showsViewer = True\<rparr>
      in st\<lparr>tweens := running @ [moveOut, scaleUp]\<rparr>)"

text \<open>
  The completion of one tween: its object takes the end values; the callback of the
  scale tween of \<^verbatim>\<open>handleOrnamentClick\<close> sets \<^verbatim>\<open>selectedOrnament\<close>,
  \<^verbatim>\<open>viewerVisible\<close> and \<^verbatim>\<open>target.userData.isExpanded\<close>.
\<close>

definition completeTween :: "viewState \<Rightarrow> tween \<Rightarrow> viewState" where
  "completeTween st tw =
     (let i = tweenMesh tw;
          st1 = mapOrnament i
                  (\<lambda>m. case tweenProperty tw of
                          TweenPosition \<Rightarrow> m\<lparr>position := tweenTo tw\<rparr>
                        | TweenScale \<Rightarrow> m\<lparr>scale := tweenTo tw\<rparr>
                        | TweenRotation \<Rightarrow> m\<lparr>rotation :=
                            Euler (vx (tweenTo tw)) (vy (tweenTo tw)) (vz (tweenTo tw))\<rparr>) st
      in if showsViewer tw
         then (mapOrnament i (\<lambda>m. m\<lparr>userData := (userData m)\<lparr>isExpanded := True\<rparr>\<rparr>) st1)
                \<lparr>selectedOrnament := Some i, viewerVisible := True\<rparr>
         else st1)"

text \<open>All running tweens run to completion, in the order in which they were started.\<close>

definition runTweens :: "viewState \<Rightarrow> viewState" where
  "runTweens st = (foldl completeTween st (tweens st))\<lparr>tweens := []\<rparr>"

text \<open>
  The callback of \<^verbatim>\<open>ornamentSystem.getObjects().forEach\<close> in \<^verbatim>\<open>closeViewer\<close>: the
  tweens it starts for the mesh at index \<open>i\<close>, and the mesh after it.
\<close>

definition closeStep :: "nat \<Rightarrow> ornamentMesh \<Rightarrow> tween list \<times> ornamentMesh" where
  "closeStep i m =
     (if isExpanded (userData m) then
        ([\<lparr>tweenMesh = i, tweenProperty = TweenPosition, tweenTo = originalPosition (userData m),
           duration = 0.6, ease = ''power2.inOut'', showsViewer = False\<rparr>,
          \<lparr>tweenMesh = i, tweenProperty = TweenScale, tweenTo = originalScale (userData m),
           duration = 0.6, ease = ''power2.inOut'', showsViewer = False\<rparr>],
         m\<lparr>userData := (userData m)\<lparr>isExpanded := False\<rparr>\<rparr>)
      else ([], m))"

fun closeLoop :: "nat \<Rightarrow> ornamentMesh list \<Rightarrow> tween list \<times> ornamentMesh list" where
  "closeLoop i [] = ([], [])"
| "closeLoop i (m # ms) =
     (let (tws, m1) = closeStep i m;
          (rest, ms1) = closeLoop (Suc i) ms
      in (tws @ rest, m1 # ms1))"

text \<open>\<^verbatim>\<open>closeViewer\<close>, called on the viewer's close signal.\<close>

definition closeViewer :: "viewState \<Rightarrow> viewState" where
  "closeViewer st =
     (let (started, ms) = closeLoop 0 (ornaments (ornamentSystem st))
      in st\<lparr>viewerVisible := False,
            selectedOrnament := None,
            ornamentSystem := (ornamentSystem st)\<lparr>ornaments := ms\<rparr>,
            tweens := tweens st @ started\<rparr>)"

text \<open>The card at an index, and the number of cards.\<close>

definition cardAt :: "viewState \<Rightarrow> nat \<Rightarrow> ornamentMesh" where
  "cardAt st i = ornaments (ornamentSystem st) ! i"

definition cardCount :: "viewState \<Rightarrow> nat" where
  "cardCount st = length (ornaments (ornamentSystem st))"

section \<open>Example values\<close>

definition exampleParticle :: ParticleData where
  "exampleParticle =
     \<lparr>pid = 0, targetPosition = Vector3 3 0 4, currentPosition = Vector3 3 0 4,
      pcolor = ColorHex ''#ffffff'', baseScale = 1, currentScale = 1, layer = 0,
      phaseOffset = 0, ptype = Foliage, explosionVelocity = Vector3 0 1 0\<rparr>"

definition exampleFrame :: frameInput where
  "exampleFrame =
     \<lparr>time = 0, mousePos = None, dispersion = 0, twinkleSpeed = 1, snowDensity = 0.5,
      snowSpeed = 1, treeDensity = 1, decorationDensity = 1\<rparr>"

definition exampleMesh :: mesh where
  "exampleMesh =
     \<lparr>instanceMatrix = [MakeScale 1 1 1, MakeScale 1 1 1],
      instanceColor = [ColorHex ''#ffffff'', ColorHex ''#ffffff'']\<rparr>"

definition exampleCard :: "string \<Rightarrow> ornamentMesh" where
  "exampleCard ident =
     \<lparr>position = Vector3 3 5 1, rotation = Euler 0 0 0, scale = Vector3 0.8 0.8 0.8,
      materialMap = None,
      userData =
        \<lparr>ornamentId = ident, src = ''default.jpg'', title = ''t'', description = ''d'',
         dataPosition = Vector3 3 5 1, dataScale = 1, isOrnament = True,
         originalPosition = Vector3 3 5 1, originalRotation = Euler 0 0 0,
         originalScale = Vector3 0.8 0.8 0.8, cardExplosionVelocity = Vector3 0 1 0,
         isExpanded = False\<rparr>,
      hitBox = Vector3 2.0 2.5 1.0\<rparr>"

definition exampleCards :: ornamentSystem where
  "exampleCards = \<lparr>ornaments = [exampleCard ''a'', exampleCard ''b''], pendingLoads = []\<rparr>"

definition exampleView :: viewState where
  "exampleView =
     \<lparr>ornamentSystem = exampleCards, tweens = [], viewerVisible = False, selectedOrnament = None\<rparr>"



section \<open>Properties of the dispersion state\<close>

lemma animateDispersion_target: "target (animateDispersion st) = target st"
  by (simp add: animateDispersion_def)

lemma animateDispersion_gap:
  "current (animateDispersion st) - target st = 0.95 * (current st - target st)"
  by (simp add: animateDispersion_def field_simps)

lemma animateFrames_target: "target (animateFrames n st) = target st"
  by (induction n arbitrary: st) (simp_all add: animateDispersion_target)

lemma animateFrames_gap:
  "current (animateFrames n st) - target st = 0.95 ^ n * (current st - target st)"
proof (induction n arbitrary: st)
  case 0
  show ?case by simp
next
  case (Suc n)
  have "current (animateFrames (Suc n) st) - target st
        = current (animateFrames n (animateDispersion st)) - target (animateDispersion st)"
    by (simp add: animateDispersion_target)
  also have "\<dots> = 0.95 ^ n * (current (animateDispersion st) - target (animateDispersion st))"
    by (rule Suc.IH)
  also have "\<dots> = 0.95 ^ n * (0.95 * (current st - target st))"
    by (simp only: animateDispersion_target animateDispersion_gap)
  finally show ?case by simp
qed

lemma pow95_90: "(0.95::real) ^ 90 \<le> 0.01"
  by (simp add: power_divide)

lemma pow95_late: "90 \<le> n \<Longrightarrow> (0.95::real) ^ n \<le> 0.01"
proof -
  assume "90 \<le> n"
  then have "(0.95::real) ^ n \<le> 0.95 ^ 90"
    by (intro power_decreasing) simp_all
  with pow95_90 show ?thesis by linarith
qed

text \<open>
  C1. Every frame sets \<open>current\<close> to \<open>current + (target - current) * 0.05\<close> and leaves
  the target alone, so the gap \<open>|current - target|\<close> is multiplied by exactly 0.95 per
  frame and by \<open>0.95 ^ n\<close> over \<open>n\<close> frames. With the target held at 1.5 and a start
  anywhere in \<open>[0, 1.5]\<close>, from frame 90 on the current value is within 1% of 1.5
  (that is, within 0.015).
\<close>

theorem dispersion_easing_converges:
  "current (animateDispersion st) = current st + (target st - current st) * 0.05
   \<and> target (animateDispersion st) = target st
   \<and> \<bar>current (animateDispersion st) - target st\<bar> = 0.95 * \<bar>current st - target st\<bar>
   \<and> \<bar>current (animateFrames n st) - target st\<bar> = 0.95 ^ n * \<bar>current st - target st\<bar>
   \<and> (target st = 1.5 \<and> 0 \<le> current st \<and> current st \<le> 1.5 \<and> 90 \<le> n
        \<longrightarrow> \<bar>current (animateFrames n st) - 1.5\<bar> \<le> 0.01 * 1.5)"
proof -
  have step: "\<bar>current (animateDispersion st) - target st\<bar> = 0.95 * \<bar>current st - target st\<bar>"
    by (simp only: animateDispersion_gap abs_mult) simp
  have iter: "\<bar>current (animateFrames n st) - target st\<bar> = 0.95 ^ n * \<bar>current st - target st\<bar>"
    by (simp only: animateFrames_gap abs_mult) simp
  have conv: "\<bar>current (animateFrames n st) - 1.5\<bar> \<le> 0.01 * 1.5"
    if t: "target st = 1.5" and lo: "0 \<le> current st" and hi: "current st \<le> 1.5" and n: "90 \<le> n"
  proof -
    have gap: "\<bar>current st - target st\<bar> \<le> 1.5" using t lo hi by simp
    have "\<bar>current (animateFrames n st) - target st\<bar> \<le> 0.01 * 1.5"
      unfolding iter using pow95_late [OF n] gap
      by (intro mult_mono) simp_all
    then show ?thesis using t by simp
  qed
  show ?thesis
    using step iter conv by (simp add: animateDispersion_def)
qed

theorem dispersion_easing_converges_witness:
  "\<bar>current (animateFrames 90 \<lparr>current = 0, target = 1.5\<rparr>) - 1.5\<bar> \<le> 0.015"
  using dispersion_easing_converges [of "\<lparr>current = 0, target = 1.5\<rparr>" 90] by simp

section \<open>Properties of the wheel handler\<close>

lemma onWheel_target:
  "target (onWheel deltaY st) = max 0 (min 1.5 (target st + deltaY * 0.001))"
  by (simp add: onWheel_def Let_def)

lemma onWheel_current: "current (onWheel deltaY st) = current st"
  by (simp add: onWheel_def Let_def)

lemma onWheel_range: "0 \<le> target (onWheel deltaY st) \<and> target (onWheel deltaY st) \<le> 1.5"
  unfolding onWheel_target by (simp add: max_def min_def)

lemma onWheels_range:
  "0 \<le> target st \<and> target st \<le> 1.5 \<Longrightarrow>
   0 \<le> target (onWheels ds st) \<and> target (onWheels ds st) \<le> 1.5"
proof (induction ds arbitrary: st)
  case Nil
  then show ?case by simp
next
  case (Cons d ds)
  show ?case
    unfolding onWheels.simps by (rule Cons.IH) (rule onWheel_range)
qed

text \<open>
  C2. A wheel event sets the target to the previous target plus \<open>deltaY * 0.001\<close>,
  clamped into \<open>[0, 1.5]\<close>, and leaves \<open>current\<close> alone. From target 0, one event with
  \<open>deltaY = 500\<close> gives 0.5 and ten of them give exactly 1.5. After any sequence of
  events from target 0, and after any non-empty sequence from any state, the target is
  at most 1.5.
\<close>

theorem wheel_target_clamped:
  "target (onWheel deltaY st) = max 0 (min 1.5 (target st + deltaY * 0.001))
   \<and> current (onWheel deltaY st) = current st
   \<and> target (onWheel 500 (st\<lparr>target := 0\<rparr>)) = 0.5
   \<and> target (onWheels (replicate 10 500) (st\<lparr>target := 0\<rparr>)) = 1.5
   \<and> target (onWheels ds (st\<lparr>target := 0\<rparr>)) \<le> 1.5
   \<and> target (onWheels (d # ds) st) \<le> 1.5"
proof -
  have one: "target (onWheel 500 (st\<lparr>target := 0\<rparr>)) = 0.5"
    by (simp add: onWheel_target)
  have ten: "target (onWheels (replicate 10 500) (st\<lparr>target := 0\<rparr>)) = 1.5"
    by (simp add: eval_nat_numeral onWheel_def Let_def)
  have from0: "target (onWheels ds (st\<lparr>target := 0\<rparr>)) \<le> 1.5"
    using onWheels_range [of "st\<lparr>target := 0\<rparr>" ds] by simp
  have any: "target (onWheels (d # ds) st) \<le> 1.5"
    using onWheels_range [OF onWheel_range, of ds d st] by simp
  show ?thesis
    using one ten from0 any onWheel_target onWheel_current by blast
qed

section \<open>Properties of the generated particles\<close>

lemma vlength_sq: "vlength v * vlength v = vx v * vx v + vy v * vy v + vz v * vz v"
  unfolding vlength_def by (simp add: sum_nonneg)

lemma vlength_nonneg: "0 \<le> vlength v"
  unfolding vlength_def by (simp add: sum_nonneg)

lemma vlength_zero_iff: "vlength v = 0 \<longleftrightarrow> vx v = 0 \<and> vy v = 0 \<and> vz v = 0"
proof
  assume "vlength v = 0"
  then have "vx v * vx v + vy v * vy v + vz v * vz v = 0"
    using vlength_sq [of v] by simp
  moreover have "0 \<le> vx v * vx v" "0 \<le> vy v * vy v" "0 \<le> vz v * vz v" by simp_all
  ultimately have "vx v * vx v = 0 \<and> vy v * vy v = 0 \<and> vz v * vz v = 0" by linarith
  then show "vx v = 0 \<and> vy v = 0 \<and> vz v = 0" by simp
next
  assume "vx v = 0 \<and> vy v = 0 \<and> vz v = 0"
  then show "vlength v = 0" by (simp add: vlength_def)
qed

lemma normalize_components:
  "vlength v \<noteq> 0 \<Longrightarrow>
   vx (normalize v) = vx v / vlength v \<and> vy (normalize v) = vy v / vlength v
   \<and> vz (normalize v) = vz v / vlength v"
  by (simp add: normalize_def divideScalar_def multiplyScalar_def)

lemma normalize_unit:
  assumes "vlength v \<noteq> 0"
  shows "vlength (normalize v) = 1"
proof -
  let ?l = "vlength v"
  have "vlength (normalize v) * vlength (normalize v)
        = (vx v * vx v + vy v * vy v + vz v * vz v) / (?l * ?l)"
    unfolding vlength_sq [of "normalize v"] using normalize_components [OF assms]
    by (simp add: add_divide_distrib)
  also have "\<dots> = 1" using assms by (simp add: vlength_sq [symmetric])
  finally have "vlength (normalize v) * vlength (normalize v) = 1" .
  moreover have "0 \<le> vlength (normalize v)" by (rule vlength_nonneg)
  ultimately show ?thesis
    by (metis abs_of_nonneg mult_1 real_sqrt_abs2 real_sqrt_one)
qed

lemma unit_via_sq: "0 \<le> (a::real) \<Longrightarrow> a * a = 1 \<Longrightarrow> a = 1"
  by (metis abs_of_nonneg real_sqrt_abs2 real_sqrt_one)


lemma normalize_vy_pos:
  assumes "0 < vy v"
  shows "vlength (normalize v) = 1 \<and> 0 < vy (normalize v)"
proof -
  have nz: "vlength v \<noteq> 0" using assms vlength_zero_iff [of v] by auto
  then have "0 < vlength v" using vlength_nonneg [of v] by linarith
  then have "0 < vy v / vlength v" using assms by simp
  then show ?thesis using normalize_unit [OF nz] normalize_components [OF nz] by simp
qed

lemma scatter_nonzero:
  assumes u: "vlength u = 1" and pos: "0 < vy u" and d: "- 1 < d"
  shows "vlength (u\<lparr>vy := vy u + d\<rparr>) \<noteq> 0"
proof -
  have "\<not> (vx u = 0 \<and> vy u + d = 0 \<and> vz u = 0)"
  proof
    assume a: "vx u = 0 \<and> vy u + d = 0 \<and> vz u = 0"
    then have x: "vx u = 0" and z: "vz u = 0" and y: "vy u + d = 0" by blast+
    have "vy u * vy u = vlength u * vlength u" unfolding vlength_sq x z by simp
    then have "vy u * vy u = 1" unfolding u by simp
    then have "vy u = 1" using unit_via_sq [of "vy u"] pos by simp
    with y d show False by linarith
  qed
  then show ?thesis unfolding vlength_zero_iff by simp
qed

lemma tight_pos_aux:
  "f \<le> e \<Longrightarrow> 0 \<le> f \<Longrightarrow> (0::real) < f + (0.5 + (e - f - 0.5) * 0.7)"
  by argo

lemma tight_pos:
  assumes "0 \<le> (e::real)"
  shows "0 < of_int \<lfloor>e\<rfloor> + (0.5 + (e - of_int \<lfloor>e\<rfloor> - 0.5) * 0.7)"
proof (rule tight_pos_aux)
  show "real_of_int \<lfloor>e\<rfloor> \<le> e" by simp
  show "0 \<le> real_of_int \<lfloor>e\<rfloor>" using assms by simp
qed

lemma treeParticle_explosionVelocity:
  "explosionVelocity (fst (treeParticle rnd k i)) =
     (let h = rnd k powr 0.8;
          e = h * layerCount;
          y = (of_int \<lfloor>e\<rfloor> + (0.5 + (e - of_int \<lfloor>e\<rfloor> - 0.5) * 0.7)) / layerCount * treeHeight;
          r = (bottomRadius - (y / treeHeight) * (bottomRadius - topRadius)) * flare (e - of_int \<lfloor>e\<rfloor>)
                * ((0.3 + 0.7 * sqrt (rnd (k + 1)))
                   * (0.8 + 0.4 * (sin (y * 2.0) * cos (real i * 0.1) * 0.5 + 0.5)));
          a = rnd (k + 2) * pi * 2;
          u = normalize (Vector3 (cos a * r) (y + 2.0) (sin a * r))
      in normalize (u\<lparr>vy := vy u + (rnd (k + 3) - 0.5) * 0.5\<rparr>))"
  unfolding treeParticle_def Let_def split_def by simp

lemma treeParticle_unit:
  assumes rnd: "\<forall>k. 0 \<le> rnd k \<and> rnd k < 1"
  shows "vlength (explosionVelocity (fst (treeParticle rnd k i))) = 1"
proof -
  define e where "e = rnd k powr 0.8 * layerCount"
  define t where "t = of_int \<lfloor>e\<rfloor> + (0.5 + (e - of_int \<lfloor>e\<rfloor> - 0.5) * 0.7)"
  define y where "y = t / layerCount * treeHeight"
  define r where "r = (bottomRadius - (y / treeHeight) * (bottomRadius - topRadius)) * flare (e - of_int \<lfloor>e\<rfloor>)
                * ((0.3 + 0.7 * sqrt (rnd (k + 1)))
                   * (0.8 + 0.4 * (sin (y * 2.0) * cos (real i * 0.1) * 0.5 + 0.5)))"
  define a where "a = rnd (k + 2) * pi * 2"
  define u where "u = normalize (Vector3 (cos a * r) (y + 2.0) (sin a * r))"
  define d where "d = (rnd (k + 3) - 0.5) * 0.5"
  have e0: "0 \<le> e" unfolding e_def layerCount_def by simp
  have "0 < t" unfolding t_def by (rule tight_pos [OF e0])
  then have ypos: "0 < y" unfolding y_def layerCount_def treeHeight_def by simp
  have ev: "explosionVelocity (fst (treeParticle rnd k i)) = normalize (u\<lparr>vy := vy u + d\<rparr>)"
    unfolding treeParticle_explosionVelocity Let_def d_def u_def a_def r_def y_def t_def e_def
    by (rule refl)
  have "0 < vy (Vector3 (cos a * r) (y + 2.0) (sin a * r))" using ypos by (simp add: Vector3_def)
  from normalize_vy_pos [OF this]
  have ul: "vlength u = 1" and p: "0 < vy u" unfolding u_def by simp_all
  have "0 \<le> rnd (k + 3)" using rnd by simp
  then have dl: "- 1 < d" unfolding d_def by simp
  show ?thesis unfolding ev by (rule normalize_unit) (rule scatter_nonzero [OF ul p dl])
qed

lemma cos_sin_sq: "cos a * cos a + sin a * sin a = (1::real)"
  using sin_cos_squared_add2 [of a] by (simp add: power2_eq_square)

lemma horizontal_length:
  assumes "0 < r"
  shows "vlength (Vector3 (cos a * r) 0 (sin a * r)) = r"
proof -
  have "cos a * r * (cos a * r) + sin a * r * (sin a * r) = r * r * (cos a * cos a + sin a * sin a)"
    by algebra
  also have "\<dots> = r * r" unfolding cos_sin_sq by simp
  finally show ?thesis using assms by (simp add: vlength_def Vector3_def)
qed

lemma trunkParticle_unit:
  assumes rnd: "\<forall>k. 0 \<le> rnd k \<and> rnd k < 1"
  shows "vlength (explosionVelocity (fst (trunkParticle rnd k i))) = 1"
proof -
  define r where "r = (0.4 + 0.6 * sqrt (rnd (k + 2))) * trunkRadius"
  define a where "a = rnd (k + 1) * pi * 2"
  define u where "u = normalize (Vector3 (cos a * r) 0 (sin a * r))"
  define d where "d = (rnd (k + 3) - 0.5) * 0.2"
  have ev: "explosionVelocity (fst (trunkParticle rnd k i)) = normalize (u\<lparr>vy := d\<rparr>)"
    by (simp add: trunkParticle_def Let_def u_def a_def r_def d_def)
  have "0 \<le> 0.6 * sqrt (rnd (k + 2))" using rnd by simp
  then have "0 < 0.4 + 0.6 * sqrt (rnd (k + 2))" by (intro add_pos_nonneg) simp_all
  then have rpos: "0 < r" unfolding r_def trunkRadius_def by (intro mult_pos_pos) simp_all
  have nz: "vlength (Vector3 (cos a * r) 0 (sin a * r)) \<noteq> 0"
    using horizontal_length [OF rpos, of a] rpos by simp
  have ul: "vlength u = 1" unfolding u_def by (rule normalize_unit [OF nz])
  have uy: "vy u = 0" unfolding u_def using normalize_components [OF nz] by (simp add: Vector3_def)
  have "vx u * vx u + vz u * vz u = 1" using vlength_sq [of u] ul uy by simp
  then have "\<not> (vx u = 0 \<and> vz u = 0)" by auto
  then have "vlength (u\<lparr>vy := d\<rparr>) \<noteq> 0"
    using vlength_zero_iff [of "u\<lparr>vy := d\<rparr>"] by simp
  then show ?thesis unfolding ev by (rule normalize_unit)
qed

lemma snowParticle_unit:
  "vlength (explosionVelocity (fst (snowParticle rnd k i))) = 1"
  by (simp add: snowParticle_def vlength_def Vector3_def)

lemma auraParticle_unit:
  assumes rnd: "\<forall>k. 0 \<le> rnd k \<and> rnd k < 1"
  shows "vlength (explosionVelocity (fst (auraParticle rnd k i))) = 1"
proof -
  define theta where "theta = rnd k * pi * 2"
  define phi where "phi = arccos (2 * rnd (k + 1) - 1)"
  define r where "r = 10 + rnd (k + 2) * 15"
  define v where "v = Vector3 (r * sin phi * cos theta) (r * sin phi * sin theta + 8) (r * cos phi)"
  have ev: "explosionVelocity (fst (auraParticle rnd k i)) = normalize v"
    by (simp add: auraParticle_def Let_def v_def theta_def phi_def r_def)
  have r10: "10 \<le> r" unfolding r_def using rnd by simp
  have "vlength v \<noteq> 0"
  proof
    assume "vlength v = 0"
    then have z: "r * sin phi * cos theta = 0" "r * sin phi * sin theta = - 8" "r * cos phi = 0"
      using vlength_zero_iff [of v] by (simp_all add: v_def Vector3_def)
    have "r * r = r * r * (sin phi * sin phi * (cos theta * cos theta + sin theta * sin theta)
                           + cos phi * cos phi)"
      unfolding cos_sin_sq [of theta] using cos_sin_sq [of phi] by (simp add: add.commute)
    also have "\<dots> = (r * sin phi * cos theta) * (r * sin phi * cos theta)
                    + (r * sin phi * sin theta) * (r * sin phi * sin theta)
                    + (r * cos phi) * (r * cos phi)"
      by algebra
    also have "\<dots> = 64" unfolding z by simp
    finally have "r * r = 64" .
    moreover have "10 * 10 \<le> r * r" using r10 by (intro mult_mono) simp_all
    ultimately show False by simp
  qed
  then show ?thesis unfolding ev by (rule normalize_unit)
qed

lemma pushTyped_particles: "particles (pushTyped p ps) = particles ps @ [p]"
  by (cases "ptype p") (simp_all add: pushTyped_def Let_def)

lemma pushTyped_populations:
  assumes "l' \<in> set (populations (pushTyped p ps))"
  shows "\<exists>l \<in> set (populations ps). set l' \<subseteq> insert p (set l)"
  using assms by (cases "ptype p") (auto simp: pushTyped_def Let_def populations_def)

lemma generateLoop_particles:
  assumes body: "\<And>k i. P (fst (body rnd k i))"
    and start: "\<forall>p \<in> set (particles ps). P p"
  shows "\<forall>p \<in> set (particles (snd (generateLoop body rnd n i (k, ps)))). P p"
  using start
proof (induction n arbitrary: i k ps)
  case 0
  then show ?case by simp
next
  case (Suc n)
  obtain p k1 where b: "body rnd k i = (p, k1)" by (cases "body rnd k i")
  have "P p" using body [of k i] b by simp
  then have "\<forall>q \<in> set (particles (pushTyped p ps)). P q"
    using Suc.prems by (simp add: pushTyped_particles)
  from Suc.IH [OF this] show ?case by (simp add: b)
qed

lemma generateLoop_populations:
  assumes body: "\<And>k i. P (fst (body rnd k i))"
    and start: "\<forall>l \<in> set (populations ps). \<forall>p \<in> set l. P p"
  shows "\<forall>l \<in> set (populations (snd (generateLoop body rnd n i (k, ps)))). \<forall>p \<in> set l. P p"
  using start
proof (induction n arbitrary: i k ps)
  case 0
  then show ?case by simp
next
  case (Suc n)
  obtain p k1 where b: "body rnd k i = (p, k1)" by (cases "body rnd k i")
  have pp: "P p" using body [of k i] b by simp
  have "\<forall>l \<in> set (populations (pushTyped p ps)). \<forall>q \<in> set l. P q"
  proof (intro ballI)
    fix l' q assume l': "l' \<in> set (populations (pushTyped p ps))" and q: "q \<in> set l'"
    from pushTyped_populations [OF l'] obtain l
      where "l \<in> set (populations ps)" and "set l' \<subseteq> insert p (set l)" by blast
    with q pp Suc.prems show "P q" by blast
  qed
  from Suc.IH [OF this] show ?case by (simp add: b)
qed

lemma generateLoop_length:
  "length (particles (snd (generateLoop body rnd n i (k, ps)))) = length (particles ps) + n"
proof (induction n arbitrary: i k ps)
  case 0
  show ?case by simp
next
  case (Suc n)
  obtain p k1 where b: "body rnd k i = (p, k1)" by (cases "body rnd k i")
  show ?case by (simp add: b Suc.IH pushTyped_particles)
qed

lemma generateAll_length:
  "length (particles (generateAll rnd)) = particleCount + trunkCount + snowCount + auraCount"
proof -
  obtain k1 ps1 where t: "generateTreeData rnd (0, emptySystem) = (k1, ps1)"
    by (cases "generateTreeData rnd (0, emptySystem)")
  obtain k2 ps2 where u: "generateTrunkData rnd (k1, ps1) = (k2, ps2)"
    by (cases "generateTrunkData rnd (k1, ps1)")
  obtain k3 ps3 where v: "generateSnowData rnd (k2, ps2) = (k3, ps3)"
    by (cases "generateSnowData rnd (k2, ps2)")
  have l1: "length (particles ps1) = particleCount"
    using generateLoop_length [of treeParticle rnd particleCount 0 0 emptySystem] t
    by (simp add: generateTreeData_def emptySystem_def)
  have l2: "length (particles ps2) = particleCount + trunkCount"
    using generateLoop_length [of trunkParticle rnd trunkCount 0 k1 ps1] u l1
    by (simp add: generateTrunkData_def)
  have l3: "length (particles ps3) = particleCount + trunkCount + snowCount"
    using generateLoop_length [of snowParticle rnd snowCount 0 k2 ps2] v l2
    by (simp add: generateSnowData_def)
  show ?thesis
    using generateLoop_length [of auraParticle rnd auraCount 0 k3 ps3] l3
    by (simp add: generateAll_def t u v generateAuraData_def)
qed

lemma generateAll_invariant:
  assumes tree: "\<And>k i. P (fst (treeParticle rnd k i))"
    and trunk: "\<And>k i. P (fst (trunkParticle rnd k i))"
    and snow: "\<And>k i. P (fst (snowParticle rnd k i))"
    and aura: "\<And>k i. P (fst (auraParticle rnd k i))"
  shows "(\<forall>p \<in> set (particles (generateAll rnd)). P p)
         \<and> (\<forall>l \<in> set (populations (generateAll rnd)). \<forall>p \<in> set l. P p)"
proof -
  obtain k1 ps1 where t: "generateTreeData rnd (0, emptySystem) = (k1, ps1)"
    by (cases "generateTreeData rnd (0, emptySystem)")
  obtain k2 ps2 where u: "generateTrunkData rnd (k1, ps1) = (k2, ps2)"
    by (cases "generateTrunkData rnd (k1, ps1)")
  obtain k3 ps3 where v: "generateSnowData rnd (k2, ps2) = (k3, ps3)"
    by (cases "generateSnowData rnd (k2, ps2)")
  have a0: "\<forall>p \<in> set (particles emptySystem). P p"
    and b0: "\<forall>l \<in> set (populations emptySystem). \<forall>p \<in> set l. P p"
    by (simp_all add: emptySystem_def populations_def)
  have a1: "\<forall>p \<in> set (particles ps1). P p"
    using generateLoop_particles [of P treeParticle rnd emptySystem particleCount 0 0, OF tree a0] t
    by (simp add: generateTreeData_def)
  have b1: "\<forall>l \<in> set (populations ps1). \<forall>p \<in> set l. P p"
    using generateLoop_populations [of P treeParticle rnd emptySystem particleCount 0 0, OF tree b0] t
    by (simp add: generateTreeData_def)
  have a2: "\<forall>p \<in> set (particles ps2). P p"
    using generateLoop_particles [of P trunkParticle rnd ps1 trunkCount 0 k1, OF trunk a1] u
    by (simp add: generateTrunkData_def)
  have b2: "\<forall>l \<in> set (populations ps2). \<forall>p \<in> set l. P p"
    using generateLoop_populations [of P trunkParticle rnd ps1 trunkCount 0 k1, OF trunk b1] u
    by (simp add: generateTrunkData_def)
  have a3: "\<forall>p \<in> set (particles ps3). P p"
    using generateLoop_particles [of P snowParticle rnd ps2 snowCount 0 k2, OF snow a2] v
    by (simp add: generateSnowData_def)
  have b3: "\<forall>l \<in> set (populations ps3). \<forall>p \<in> set l. P p"
    using generateLoop_populations [of P snowParticle rnd ps2 snowCount 0 k2, OF snow b2] v
    by (simp add: generateSnowData_def)
  have g: "generateAll rnd = snd (generateLoop auraParticle rnd auraCount 0 (k3, ps3))"
    by (simp add: generateAll_def t u v generateAuraData_def)
  show ?thesis
    unfolding g
    using generateLoop_particles [of P auraParticle rnd ps3 auraCount 0 k3, OF aura a3]
      generateLoop_populations [of P auraParticle rnd ps3 auraCount 0 k3, OF aura b3]
    by blast
qed

text \<open>
  C4. When every random draw lies in \<open>[0, 1)\<close>, every particle that generation
  produces (tree volume, trunk, snow and aura; in the list of all particles and in
  each population list) has an \<open>explosionVelocity\<close> of Euclidean length 1 within
  \<open>10\<^sup>-\<^sup>6\<close>. In the model of exact real arithmetic the length is exactly 1.
\<close>

theorem explosionVelocity_unit_length:
  assumes rnd: "\<forall>k. 0 \<le> rnd k \<and> rnd k < 1"
  shows "(\<forall>p \<in> set (particles (generateAll rnd)). \<bar>vlength (explosionVelocity p) - 1\<bar> \<le> 1 / 10 ^ 6)
         \<and> (\<forall>l \<in> set (populations (generateAll rnd)). \<forall>p \<in> set l.
               \<bar>vlength (explosionVelocity p) - 1\<bar> \<le> 1 / 10 ^ 6)"
proof (rule generateAll_invariant)
  fix k i
  show "\<bar>vlength (explosionVelocity (fst (treeParticle rnd k i))) - 1\<bar> \<le> 1 / 10 ^ 6"
    by (simp add: treeParticle_unit [OF rnd])
  show "\<bar>vlength (explosionVelocity (fst (trunkParticle rnd k i))) - 1\<bar> \<le> 1 / 10 ^ 6"
    by (simp add: trunkParticle_unit [OF rnd])
  show "\<bar>vlength (explosionVelocity (fst (snowParticle rnd k i))) - 1\<bar> \<le> 1 / 10 ^ 6"
    by (simp add: snowParticle_unit)
  show "\<bar>vlength (explosionVelocity (fst (auraParticle rnd k i))) - 1\<bar> \<le> 1 / 10 ^ 6"
    by (simp add: auraParticle_unit [OF rnd])
qed

theorem explosionVelocity_unit_length_witness:
  "\<bar>vlength (explosionVelocity (particles (generateAll (\<lambda>k. 1 / 2)) ! 0)) - 1\<bar> \<le> 1 / 10 ^ 6"
proof -
  have r: "\<forall>k::nat. (0::real) \<le> 1 / 2 \<and> (1 / 2 :: real) < 1" by simp
  have "0 < length (particles (generateAll (\<lambda>k. 1 / 2)))"
    by (simp add: generateAll_length particleCount_def)
  then have "particles (generateAll (\<lambda>k. 1 / 2)) ! 0 \<in> set (particles (generateAll (\<lambda>k. 1 / 2)))"
    by (rule nth_mem)
  with explosionVelocity_unit_length [of "\<lambda>k. 1 / 2", OF r] show ?thesis by blast
qed

text \<open>
  C6. The flare factor of the source at the two ends of a layer: 1.4 at the layer
  bottom (\<open>layerProgress = 0\<close>) and 1.0 at \<open>layerProgress = 1\<close>, where the source
  comment and the specification give 1.0 and 0.6. In between it falls linearly, by 0.4
  per unit of \<open>layerProgress\<close>.
\<close>

theorem flare_layer_ends:
  "flare 0 = 1.4 \<and> flare 1 = 1.0 \<and> flare lp - flare lq = 0.4 * (lq - lp)"
  by (simp add: flare_def field_simps)

section \<open>Properties of rounding\<close>

lemma roundHalfEven_int: "roundHalfEven (of_int k) = k"
  by (simp add: roundHalfEven_def)






lemma roundDouble_pos:
  assumes "0 < x"
  shows "roundDouble x =
           of_int (roundHalfEven (x / 2 powr (of_int \<lfloor>log 2 x\<rfloor> - 52)))
             * 2 powr (of_int \<lfloor>log 2 x\<rfloor> - 52)"
  using assms by (simp add: roundDouble_def Let_def)







lemma pow2_neg: "(2::real) powr (- real k) = 1 / 2 ^ k"
  by (simp add: powr_minus_divide powr_realpow)

lemma roundDouble_at:
  assumes "0 < x" and "2 powr of_int e \<le> x" and "x < 2 powr (of_int e + 1)"
  shows "roundDouble x = of_int (roundHalfEven (x / 2 powr (of_int e - 52))) * 2 powr (of_int e - 52)"
proof -
  have "\<lfloor>log 2 x\<rfloor> = e"
    using floor_log_eq_powr_iff [of x 2 e] assms by simp
  then show ?thesis using roundDouble_pos [OF assms(1)] by simp
qed



lemma isDouble_below_one:
  assumes "1 / 2 \<le> of_int m / (2::real) ^ 53" and "of_int m / (2::real) ^ 53 < 1"
  shows "isDouble (of_int m / 2 ^ 53)"
proof -
  let ?x = "of_int m / (2::real) ^ 53"
  have u: "(2::real) powr (of_int (- 1) - 52) = 1 / 2 ^ 53"
    using pow2_neg [of 53] by simp
  have q: "?x / (1 / 2 ^ 53) = of_int m" by simp
  have "roundDouble ?x = of_int (roundHalfEven (?x / 2 powr (of_int (- 1) - 52))) * 2 powr (of_int (- 1) - 52)"
    using assms by (intro roundDouble_at) (simp_all add: powr_minus_divide)
  also have "\<dots> = of_int m * (1 / 2 ^ 53)"
    unfolding u q roundHalfEven_int ..
  finally show ?thesis by (simp add: isDouble_def)
qed




lemma isDouble_058: "isDouble double058"
  using isDouble_below_one [of 5224175567749775] by (simp add: double058_def)

text \<open>
  For 50 particles at the double nearest to 0.58 the product of the program lies just
  below 29 and its floor is 28, where the product with the decimal 0.58 is 29.
\<close>

lemma product_50_058: "\<lfloor>fmul 50 double058\<rfloor> = 28 \<and> \<lfloor>50 * (0.58::real)\<rfloor> = 29"
proof -
  have "roundDouble (50 * double058) = of_int (roundHalfEven ((50 * double058) / 2 powr (of_int 4 - 52))) * 2 powr (of_int 4 - 52)"
    by (rule roundDouble_at) (simp_all add: double058_def)
  also have "(2::real) powr (of_int 4 - 52) = 1 / 2 ^ 48"
    using pow2_neg [of 48] by simp
  also have "roundHalfEven ((50 * double058) / (1 / 2 ^ 48)) = 8162774324609023"
    by (simp add: roundHalfEven_def double058_def Let_def)
  finally have r: "roundDouble (50 * double058) = 8162774324609023 / 2 ^ 48" by simp
  have "\<lfloor>fmul 50 double058\<rfloor> = 28" unfolding fmul_def r by simp
  moreover have "\<lfloor>50 * (0.58::real)\<rfloor> = 29" by simp
  ultimately show ?thesis by blast
qed

section \<open>Properties of the per-frame update\<close>

declare drawLoop.simps [simp del]
declare hideLoop.simps [simp del]

lemma setMatrixAt_length [simp]:
  "length (instanceMatrix (setMatrixAt m i mat)) = length (instanceMatrix m)"
  by (simp add: setMatrixAt_def)

lemma setColorAt_matrix [simp]: "instanceMatrix (setColorAt m i c) = instanceMatrix m"
  by (simp add: setColorAt_def)




lemma drawLoop_unfold_draw:
  assumes "int i < vc" "i < length list"
  shows "drawLoop a isDeco rnd vc i (list, m, k) =
         drawLoop a isDeco rnd vc (Suc i)
           (list[i := fst (drawParticle a isDeco (rnd k) (list ! i))],
            setColorAt (setMatrixAt m i (snd (drawParticle a isDeco (rnd k) (list ! i)))) i
              (pcolor (fst (drawParticle a isDeco (rnd k) (list ! i)))),
            Suc k)"
  using assms by (subst drawLoop.simps) (simp add: split_def Let_def)

lemma drawLoop_unfold_stop:
  assumes "\<not> int i < vc"
  shows "drawLoop a isDeco rnd vc i (list, m, k) = (i, list, m, k)"
  using assms by (subst drawLoop.simps) simp





lemma drawLoop_cursor:
  "vc \<le> int (length list) \<Longrightarrow>
   snd (snd (snd (drawLoop a isDeco rnd vc i (list, m, k)))) = k + (nat vc - i)"
proof (induction a isDeco rnd vc i "(list, m, k)" arbitrary: list m k rule: drawLoop.induct)
  case (1 a isDeco rnd vc i list m k)
  show ?case
  proof (cases "int i < vc")
    case False
    then show ?thesis by (simp add: drawLoop_unfold_stop)
  next
    case True
    then have inr: "i < length list" using "1.prems" by linarith
    have "snd (snd (snd (drawLoop a isDeco rnd vc (Suc i)
            (list[i := fst (drawParticle a isDeco (rnd k) (list ! i))],
             setColorAt (setMatrixAt m i (snd (drawParticle a isDeco (rnd k) (list ! i)))) i
               (pcolor (fst (drawParticle a isDeco (rnd k) (list ! i)))),
             Suc k)))) = Suc k + (nat vc - Suc i)"
      using "1.hyps"(1) [OF True inr refl prod.collapse] "1.prems" by simp
    then show ?thesis
      unfolding drawLoop_unfold_draw [OF True inr] using True by simp
  qed
qed
























lemma auraLoop_particles: "fst (auraLoop a i list m) = map (\<lambda>p. fst (auraStep a p)) list"
  by (induction list arbitrary: i m) (simp_all add: split_def Let_def)

lemma rotation_preserves_radius:
  "(x * cos t - z * sin t) * (x * cos t - z * sin t) + (x * sin t + z * cos t) * (x * sin t + z * cos t)
   = x * x + z * (z::real)"
proof -
  have "(x * cos t - z * sin t) * (x * cos t - z * sin t) + (x * sin t + z * cos t) * (x * sin t + z * cos t)
        = (x * x + z * z) * (cos t * cos t + sin t * sin t)"
    by algebra
  then show ?thesis by (simp add: cos_sin_sq)
qed

text \<open>
  C10. One call of \<open>updateAura\<close> turns the horizontal coordinates of every aura
  particle by the fixed angle 0.002 about the vertical axis and adds the bob term
  \<open>sin (time + id) * 0.01\<close> to the height, so \<open>x\<^sup>2 + z\<^sup>2\<close> is the same before and
  after the call.
\<close>

theorem aura_orbit_keeps_radius:
  "length (fst (updateAura a list m)) = length list
   \<and> (\<forall>i < length list.
        currentPosition (fst (updateAura a list m) ! i) =
          \<lparr>vx = vx (currentPosition (list ! i)) * cos 0.002 - vz (currentPosition (list ! i)) * sin 0.002,
           vy = vy (currentPosition (list ! i)) + sin (time a + of_int (pid (list ! i))) * 0.01,
           vz = vx (currentPosition (list ! i)) * sin 0.002 + vz (currentPosition (list ! i)) * cos 0.002\<rparr>
        \<and> vx (currentPosition (fst (updateAura a list m) ! i)) * vx (currentPosition (fst (updateAura a list m) ! i))
          + vz (currentPosition (fst (updateAura a list m) ! i)) * vz (currentPosition (fst (updateAura a list m) ! i))
          = vx (currentPosition (list ! i)) * vx (currentPosition (list ! i))
            + vz (currentPosition (list ! i)) * vz (currentPosition (list ! i)))"
proof (intro conjI allI impI)
  show "length (fst (updateAura a list m)) = length list"
    by (simp add: updateAura_def auraLoop_particles)
next
  fix i assume i: "i < length list"
  then have q: "fst (updateAura a list m) ! i = fst (auraStep a (list ! i))"
    by (simp add: updateAura_def auraLoop_particles)
  show "currentPosition (fst (updateAura a list m) ! i) =
          \<lparr>vx = vx (currentPosition (list ! i)) * cos 0.002 - vz (currentPosition (list ! i)) * sin 0.002,
           vy = vy (currentPosition (list ! i)) + sin (time a + of_int (pid (list ! i))) * 0.01,
           vz = vx (currentPosition (list ! i)) * sin 0.002 + vz (currentPosition (list ! i)) * cos 0.002\<rparr>"
    unfolding q by (simp add: auraStep_def Let_def)
  show "vx (currentPosition (fst (updateAura a list m) ! i)) * vx (currentPosition (fst (updateAura a list m) ! i))
          + vz (currentPosition (fst (updateAura a list m) ! i)) * vz (currentPosition (fst (updateAura a list m) ! i))
          = vx (currentPosition (list ! i)) * vx (currentPosition (list ! i))
            + vz (currentPosition (list ! i)) * vz (currentPosition (list ! i))"
    unfolding q by (simp add: auraStep_def Let_def rotation_preserves_radius)
qed

theorem aura_orbit_keeps_radius_witness:
  "vx (currentPosition (fst (updateAura exampleFrame [exampleParticle] exampleMesh) ! 0))
     * vx (currentPosition (fst (updateAura exampleFrame [exampleParticle] exampleMesh) ! 0))
   + vz (currentPosition (fst (updateAura exampleFrame [exampleParticle] exampleMesh) ! 0))
     * vz (currentPosition (fst (updateAura exampleFrame [exampleParticle] exampleMesh) ! 0)) = 25"
proof -
  have "0 < length [exampleParticle]" by simp
  with aura_orbit_keeps_radius [of exampleFrame "[exampleParticle]" exampleMesh]
  have "vx (currentPosition (fst (updateAura exampleFrame [exampleParticle] exampleMesh) ! 0))
     * vx (currentPosition (fst (updateAura exampleFrame [exampleParticle] exampleMesh) ! 0))
   + vz (currentPosition (fst (updateAura exampleFrame [exampleParticle] exampleMesh) ! 0))
     * vz (currentPosition (fst (updateAura exampleFrame [exampleParticle] exampleMesh) ! 0))
   = vx (currentPosition ([exampleParticle] ! 0)) * vx (currentPosition ([exampleParticle] ! 0))
     + vz (currentPosition ([exampleParticle] ! 0)) * vz (currentPosition ([exampleParticle] ! 0))"
    by blast
  then show ?thesis by (simp add: exampleParticle_def Vector3_def)
qed

section \<open>Properties of the card system\<close>

lemma findIndex_None_iff: "findIndex P xs = None \<longleftrightarrow> (\<forall>x \<in> set xs. \<not> P x)"
  by (induction xs) simp_all

lemma findIndex_first:
  "i < length xs \<Longrightarrow> P (xs ! i) \<Longrightarrow> (\<forall>j < i. \<not> P (xs ! j)) \<Longrightarrow> findIndex P xs = Some i"
proof (induction xs arbitrary: i)
  case Nil
  then show ?case by simp
next
  case (Cons x xs)
  show ?case
  proof (cases i)
    case 0
    then show ?thesis using Cons.prems by simp
  next
    case (Suc n)
    have nx: "\<not> P x" using Cons.prems(3) Suc by (metis nth_Cons_0 zero_less_Suc)
    have "\<forall>j < n. \<not> P (xs ! j)" using Cons.prems(3) Suc by (metis Suc_less_eq nth_Cons_Suc)
    then have "findIndex P xs = Some n" using Cons.IH [of n] Cons.prems Suc by simp
    then show ?thesis using nx Suc by simp
  qed
qed

lemma updateTexture_unknown:
  assumes "\<forall>mesh \<in> set (ornaments st). ornamentId (userData mesh) \<noteq> ident"
  shows "updateTexture ident source st = st"
proof -
  have "findIndex (\<lambda>mesh. ornamentId (userData mesh) = ident) (ornaments st) = None"
    using assms by (simp add: findIndex_None_iff)
  then show ?thesis by (simp add: updateTexture_def)
qed

lemma updateTexture_known:
  assumes "i < length (ornaments st)" and "ornamentId (userData (ornaments st ! i)) = ident"
    and "\<forall>j < i. ornamentId (userData (ornaments st ! j)) \<noteq> ident"
  shows "updateTexture ident source st = st\<lparr>pendingLoads := pendingLoads st @ [(i, source)]\<rparr>"
proof -
  have "findIndex (\<lambda>mesh. ornamentId (userData mesh) = ident) (ornaments st) = Some i"
    using assms by (intro findIndex_first) simp_all
  then show ?thesis by (simp add: updateTexture_def)
qed

lemma updateTexture_ornaments: "ornaments (updateTexture ident source st) = ornaments st"
  by (simp add: updateTexture_def split: option.splits)

lemma textureLoaded_last:
  "textureLoaded (length (pendingLoads st)) (st\<lparr>pendingLoads := pendingLoads st @ [(i, source)]\<rparr>)
   = st\<lparr>ornaments := (ornaments st)[i := (ornaments st ! i)\<lparr>materialMap := Some (Texture source)\<rparr>]\<rparr>"
  by (simp add: textureLoaded_def)

lemma textureFailed_last:
  "textureFailed (length (pendingLoads st)) (st\<lparr>pendingLoads := pendingLoads st @ [(i, source)]\<rparr>) = st"
  by (simp add: textureFailed_def)

text \<open>
  C8. \<open>updateTexture\<close> with an id that no card has leaves the whole card system as it
  is. With an id that a card has, the call itself changes no card; when the load it
  starts succeeds, the first card with that id has its material image replaced and
  nothing else of it (identity, position, hit box) changes, and every other card is
  unchanged; when the load fails, nothing changes.
\<close>

theorem updateTexture_swaps_only_the_image:
  "((\<forall>mesh \<in> set (ornaments st). ornamentId (userData mesh) \<noteq> ident) \<longrightarrow>
      updateTexture ident source st = st)
   \<and> ornaments (updateTexture ident source st) = ornaments st
   \<and> (i < length (ornaments st) \<and> ornamentId (userData (ornaments st ! i)) = ident
        \<and> (\<forall>j < i. ornamentId (userData (ornaments st ! j)) \<noteq> ident) \<longrightarrow>
        textureLoaded (length (pendingLoads st)) (updateTexture ident source st)
          = st\<lparr>ornaments := (ornaments st)[i := (ornaments st ! i)\<lparr>materialMap := Some (Texture source)\<rparr>]\<rparr>
        \<and> textureFailed (length (pendingLoads st)) (updateTexture ident source st) = st)"
proof (intro conjI impI)
  assume "\<forall>mesh \<in> set (ornaments st). ornamentId (userData mesh) \<noteq> ident"
  then show "updateTexture ident source st = st" by (rule updateTexture_unknown)
next
  show "ornaments (updateTexture ident source st) = ornaments st"
    by (rule updateTexture_ornaments)
next
  assume a: "i < length (ornaments st) \<and> ornamentId (userData (ornaments st ! i)) = ident
        \<and> (\<forall>j < i. ornamentId (userData (ornaments st ! j)) \<noteq> ident)"
  then have u: "updateTexture ident source st = st\<lparr>pendingLoads := pendingLoads st @ [(i, source)]\<rparr>"
    by (intro updateTexture_known) simp_all
  show "textureLoaded (length (pendingLoads st)) (updateTexture ident source st)
          = st\<lparr>ornaments := (ornaments st)[i := (ornaments st ! i)\<lparr>materialMap := Some (Texture source)\<rparr>]\<rparr>"
    unfolding u by (rule textureLoaded_last)
  show "textureFailed (length (pendingLoads st)) (updateTexture ident source st) = st"
    unfolding u by (rule textureFailed_last)
qed

theorem updateTexture_swaps_only_the_image_witness:
  "updateTexture ''c'' ''new.png'' exampleCards = exampleCards
   \<and> textureLoaded 0 (updateTexture ''b'' ''new.png'' exampleCards)
       = exampleCards\<lparr>ornaments := [exampleCard ''a'', (exampleCard ''b'')\<lparr>materialMap := Some (Texture ''new.png'')\<rparr>]\<rparr>"
proof -
  have no: "\<forall>mesh \<in> set (ornaments exampleCards). ornamentId (userData mesh) \<noteq> ''c''"
    by (simp add: exampleCards_def exampleCard_def)
  have yes: "1 < length (ornaments exampleCards)
             \<and> ornamentId (userData (ornaments exampleCards ! 1)) = ''b''
             \<and> (\<forall>j < 1. ornamentId (userData (ornaments exampleCards ! j)) \<noteq> ''b'')"
    by (simp add: exampleCards_def exampleCard_def)
  have "updateTexture ''c'' ''new.png'' exampleCards = exampleCards"
    using updateTexture_swaps_only_the_image [of exampleCards "''c''" "''new.png''" 0] no by blast
  moreover have "textureLoaded (length (pendingLoads exampleCards)) (updateTexture ''b'' ''new.png'' exampleCards)
       = exampleCards\<lparr>ornaments := (ornaments exampleCards)[1 := (ornaments exampleCards ! 1)\<lparr>materialMap := Some (Texture ''new.png'')\<rparr>]\<rparr>"
    using updateTexture_swaps_only_the_image [of exampleCards "''b''" "''new.png''" 1] yes by blast
  ultimately show ?thesis by (simp add: exampleCards_def)
qed

lemma ornamentLoop_length: "length (ornamentLoop t disp k ms) = length ms"
  by (induction ms arbitrary: k) simp_all

lemma ornamentLoop_nth:
  "i < length ms \<Longrightarrow> ornamentLoop t disp k ms ! i = ornamentStep t disp (k + i) (ms ! i)"
proof (induction ms arbitrary: k i)
  case Nil
  then show ?case by simp
next
  case (Cons m ms)
  show ?case
  proof (cases i)
    case 0
    then show ?thesis by simp
  next
    case (Suc n)
    then show ?thesis using Cons.IH [of n "Suc k"] Cons.prems by simp
  qed
qed

lemma ornamentStep_expanded: "isExpanded (userData m) \<Longrightarrow> ornamentStep t disp i m = m"
  by (simp add: ornamentStep_def)

lemma ornamentUpdate_expanded:
  assumes "i < length (ornaments st)" and "isExpanded (userData (ornaments st ! i))"
  shows "ornaments (ornamentUpdate t disp st) ! i = ornaments st ! i"
  using assms by (simp add: ornamentUpdate_def ornamentLoop_nth ornamentStep_expanded)

lemma ornamentUpdate_length: "length (ornaments (ornamentUpdate t disp st)) = length (ornaments st)"
  by (simp add: ornamentUpdate_def ornamentLoop_length)

lemma ornamentFrames_expanded:
  assumes "i < length (ornaments st)" and "isExpanded (userData (ornaments st ! i))"
  shows "ornaments (ornamentFrames fs st) ! i = ornaments st ! i"
  using assms
proof (induction fs arbitrary: st)
  case Nil
  show ?case by simp
next
  case (Cons f fs)
  obtain t disp where f: "f = (t, disp)" by (cases f)
  have same: "ornaments (ornamentUpdate t disp st) ! i = ornaments st ! i"
    using Cons.prems by (rule ornamentUpdate_expanded)
  have "ornaments (ornamentFrames fs (ornamentUpdate t disp st)) ! i
        = ornaments (ornamentUpdate t disp st) ! i"
    using Cons.prems same by (intro Cons.IH) (simp_all add: ornamentUpdate_length)
  then show ?case using same by (simp add: f)
qed

text \<open>
  C9. A card whose \<open>isExpanded\<close> flag is set is returned unchanged by the per-frame
  card update, in position, rotation and scale, for every time and dispersion, and
  so through any run of frames (the update never clears the flag).
\<close>

theorem expanded_card_is_skipped:
  "\<forall>i < length (ornaments st). isExpanded (userData (ornaments st ! i)) \<longrightarrow>
     ornaments (ornamentUpdate t disp st) ! i = ornaments st ! i
     \<and> position (ornaments (ornamentUpdate t disp st) ! i) = position (ornaments st ! i)
     \<and> rotation (ornaments (ornamentUpdate t disp st) ! i) = rotation (ornaments st ! i)
     \<and> scale (ornaments (ornamentUpdate t disp st) ! i) = scale (ornaments st ! i)
     \<and> ornaments (ornamentFrames fs st) ! i = ornaments st ! i"
  by (simp add: ornamentUpdate_expanded ornamentFrames_expanded)

theorem expanded_card_is_skipped_witness:
  "position (ornaments (ornamentUpdate 7 1.5
      (exampleCards\<lparr>ornaments := [exampleCard ''a'',
         (exampleCard ''b'')\<lparr>userData := (userData (exampleCard ''b''))\<lparr>isExpanded := True\<rparr>\<rparr>]\<rparr>)) ! 1)
   = Vector3 3 5 1"
proof -
  let ?st = "exampleCards\<lparr>ornaments := [exampleCard ''a'',
         (exampleCard ''b'')\<lparr>userData := (userData (exampleCard ''b''))\<lparr>isExpanded := True\<rparr>\<rparr>]\<rparr>"
  have "1 < length (ornaments ?st)" "isExpanded (userData (ornaments ?st ! 1))"
    by simp_all
  with expanded_card_is_skipped [of ?st 7 "1.5" "[]"]
  have "position (ornaments (ornamentUpdate 7 1.5 ?st) ! 1) = position (ornaments ?st ! 1)"
    by blast
  then show ?thesis by (simp add: exampleCard_def)
qed

section \<open>Properties of card selection\<close>

lemma mapOrnament_count [simp]: "cardCount (mapOrnament i f st) = cardCount st"
  by (simp add: mapOrnament_def cardCount_def)

lemma mapOrnament_same: "i < cardCount st \<Longrightarrow> cardAt (mapOrnament i f st) i = f (cardAt st i)"
  by (simp add: mapOrnament_def cardAt_def cardCount_def)

lemma mapOrnament_other: "j \<noteq> i \<Longrightarrow> cardAt (mapOrnament i f st) j = cardAt st j"
  by (simp add: mapOrnament_def cardAt_def)

lemma mapOrnament_fields [simp]:
  "tweens (mapOrnament i f st) = tweens st"
  "viewerVisible (mapOrnament i f st) = viewerVisible st"
  "selectedOrnament (mapOrnament i f st) = selectedOrnament st"
  by (simp_all add: mapOrnament_def)

lemma cardAt_fields [simp]:
  "cardAt (st\<lparr>tweens := ts\<rparr>) i = cardAt st i"
  "cardAt (st\<lparr>viewerVisible := b\<rparr>) i = cardAt st i"
  "cardAt (st\<lparr>selectedOrnament := s\<rparr>) i = cardAt st i"
  by (simp_all add: cardAt_def)

lemma cardCount_fields [simp]:
  "cardCount (st\<lparr>tweens := ts\<rparr>) = cardCount st"
  "cardCount (st\<lparr>viewerVisible := b\<rparr>) = cardCount st"
  "cardCount (st\<lparr>selectedOrnament := s\<rparr>) = cardCount st"
  by (simp_all add: cardCount_def)

lemma completeTween_count [simp]: "cardCount (completeTween st tw) = cardCount st"
  by (simp add: completeTween_def Let_def)

lemma completeTween_other: "tweenMesh tw \<noteq> i \<Longrightarrow> cardAt (completeTween st tw) i = cardAt st i"
  by (simp add: completeTween_def Let_def mapOrnament_other)

lemma foldl_completeTween_count [simp]: "cardCount (foldl completeTween st ts) = cardCount st"
  by (induction ts arbitrary: st) simp_all

lemma foldl_completeTween_other:
  "\<forall>tw \<in> set ts. tweenMesh tw \<noteq> i \<Longrightarrow> cardAt (foldl completeTween st ts) i = cardAt st i"
  by (induction ts arbitrary: st) (simp_all add: completeTween_other)

lemma completeTween_position:
  assumes "tweenMesh tw < cardCount st" "tweenProperty tw = TweenPosition" "\<not> showsViewer tw"
  shows "cardAt (completeTween st tw) (tweenMesh tw) = (cardAt st (tweenMesh tw))\<lparr>position := tweenTo tw\<rparr>"
  using assms by (simp add: completeTween_def Let_def mapOrnament_same)

lemma completeTween_scale:
  assumes "tweenMesh tw < cardCount st" "tweenProperty tw = TweenScale" "\<not> showsViewer tw"
  shows "cardAt (completeTween st tw) (tweenMesh tw) = (cardAt st (tweenMesh tw))\<lparr>scale := tweenTo tw\<rparr>"
  using assms by (simp add: completeTween_def Let_def mapOrnament_same)

lemma completeTween_scale_show:
  assumes "tweenMesh tw < cardCount st" "tweenProperty tw = TweenScale" "showsViewer tw"
  shows "cardAt (completeTween st tw) (tweenMesh tw) =
           (cardAt st (tweenMesh tw))\<lparr>scale := tweenTo tw,
              userData := (userData (cardAt st (tweenMesh tw)))\<lparr>isExpanded := True\<rparr>\<rparr>"
    and "viewerVisible (completeTween st tw)"
    and "selectedOrnament (completeTween st tw) = Some (tweenMesh tw)"
  using assms by (simp_all add: completeTween_def Let_def mapOrnament_same)

text \<open>The card a click opens, once the tweens of the click have completed.\<close>

lemma click_opened:
  assumes i: "i < cardCount st" and obj: "obj = CardMesh i \<or> obj = HitBoxOf i"
  shows "cardAt (runTweens (handleOrnamentClick obj st)) i =
           (cardAt st i)\<lparr>
              position := vadd (originalPosition (userData (cardAt st i)))
                            (multiplyScalar (normalize (originalPosition (userData (cardAt st i)))) 2.0),
              scale := Vector3 (vx (originalScale (userData (cardAt st i))) * 1.5)
                         (vy (originalScale (userData (cardAt st i))) * 1.5)
                         (vz (originalScale (userData (cardAt st i))) * 1.5),
              userData := (userData (cardAt st i))\<lparr>isExpanded := True\<rparr>\<rparr>"
    and "viewerVisible (runTweens (handleOrnamentClick obj st))"
    and "selectedOrnament (runTweens (handleOrnamentClick obj st)) = Some i"
    and "tweens (runTweens (handleOrnamentClick obj st)) = []"
    and "cardCount (runTweens (handleOrnamentClick obj st)) = cardCount st"
proof -
  define running where "running = filter (\<lambda>tw. tweenMesh tw \<noteq> i) (tweens st)"
  define moveOut where "moveOut =
     \<lparr>tweenMesh = i, tweenProperty = TweenPosition,
      tweenTo = vadd (originalPosition (userData (cardAt st i)))
                  (multiplyScalar (normalize (originalPosition (userData (cardAt st i)))) 2.0),
      duration = 0.5, ease = ''back.out(1.2)'', showsViewer = False\<rparr>"
  define scaleUp where "scaleUp =
     \<lparr>tweenMesh = i, tweenProperty = TweenScale,
      tweenTo = Vector3 (vx (originalScale (userData (cardAt st i))) * 1.5)
                         (vy (originalScale (userData (cardAt st i))) * 1.5)
                         (vz (originalScale (userData (cardAt st i))) * 1.5),
      duration = 0.5, ease = ''power2.out'', showsViewer = True\<rparr>"
  define st1 where "st1 = st\<lparr>tweens := running @ [moveOut, scaleUp]\<rparr>"
  have click: "handleOrnamentClick obj st = st1"
    using obj by (auto simp: handleOrnamentClick_def Let_def st1_def running_def moveOut_def
        scaleUp_def cardAt_def)
  define s2 where "s2 = foldl completeTween st1 running"
  define s3 where "s3 = completeTween s2 moveOut"
  define s4 where "s4 = completeTween s3 scaleUp"
  have run: "runTweens st1 = s4\<lparr>tweens := []\<rparr>"
    by (simp add: runTweens_def st1_def s4_def s3_def s2_def)
  have c2: "cardAt s2 i = cardAt st i"
    unfolding s2_def using foldl_completeTween_other [of running i st1]
    by (simp add: running_def st1_def)
  have n2: "cardCount s2 = cardCount st" by (simp add: s2_def st1_def)
  have c3: "cardAt s3 i = (cardAt st i)\<lparr>position := tweenTo moveOut\<rparr>"
    unfolding s3_def using completeTween_position [of moveOut s2] n2 i c2
    by (simp add: moveOut_def)
  have n3: "cardCount s3 = cardCount st" by (simp add: s3_def n2)
  have tm: "tweenMesh scaleUp = i" "tweenProperty scaleUp = TweenScale" "showsViewer scaleUp"
    by (simp_all add: scaleUp_def)
  have c4: "cardAt s4 i = (cardAt s3 i)\<lparr>scale := tweenTo scaleUp,
              userData := (userData (cardAt s3 i))\<lparr>isExpanded := True\<rparr>\<rparr>"
    unfolding s4_def using completeTween_scale_show(1) [of scaleUp s3] n3 i tm by simp
  show "cardAt (runTweens (handleOrnamentClick obj st)) i =
           (cardAt st i)\<lparr>
              position := vadd (originalPosition (userData (cardAt st i)))
                            (multiplyScalar (normalize (originalPosition (userData (cardAt st i)))) 2.0),
              scale := Vector3 (vx (originalScale (userData (cardAt st i))) * 1.5)
                         (vy (originalScale (userData (cardAt st i))) * 1.5)
                         (vz (originalScale (userData (cardAt st i))) * 1.5),
              userData := (userData (cardAt st i))\<lparr>isExpanded := True\<rparr>\<rparr>"
    unfolding click run by (simp add: c4 c3 moveOut_def scaleUp_def)
  show "viewerVisible (runTweens (handleOrnamentClick obj st))"
    unfolding click run s4_def using completeTween_scale_show(2) [of scaleUp s3] n3 i tm by simp
  show "selectedOrnament (runTweens (handleOrnamentClick obj st)) = Some i"
    unfolding click run s4_def using completeTween_scale_show(3) [of scaleUp s3] n3 i tm by simp
  show "tweens (runTweens (handleOrnamentClick obj st)) = []"
    by (simp add: runTweens_def)
  show "cardCount (runTweens (handleOrnamentClick obj st)) = cardCount st"
    unfolding click run by (simp add: s4_def n3)
qed


lemma closeStep_card:
  "snd (closeStep k m) = m\<lparr>userData := (userData m)\<lparr>isExpanded := False\<rparr>\<rparr>"
  by (simp add: closeStep_def)

lemma closeLoop_cards:
  "snd (closeLoop k ms) = map (\<lambda>m. m\<lparr>userData := (userData m)\<lparr>isExpanded := False\<rparr>\<rparr>) ms"
proof (induction ms arbitrary: k)
  case Nil
  show ?case by simp
next
  case (Cons m ms)
  show ?case using closeStep_card [of k m] Cons.IH [of "Suc k"] by (simp add: split_def Let_def)
qed

lemma closeLoop_tweens_Cons:
  "fst (closeLoop k (m # ms)) = fst (closeStep k m) @ fst (closeLoop (Suc k) ms)"
  by (simp add: split_def Let_def)

lemma closeStep_tweenMesh: "\<forall>tw \<in> set (fst (closeStep k m)). tweenMesh tw = k"
  by (simp add: closeStep_def)

lemma closeLoop_tweenMesh: "\<forall>tw \<in> set (fst (closeLoop k ms)). k \<le> tweenMesh tw"
proof (induction ms arbitrary: k)
  case Nil
  show ?case by simp
next
  case (Cons m ms)
  have "\<forall>tw \<in> set (fst (closeLoop (Suc k) ms)). k \<le> tweenMesh tw"
    using Cons.IH [of "Suc k"] by auto
  then show ?case
    unfolding closeLoop_tweens_Cons using closeStep_tweenMesh [of k m] by auto
qed

lemma closeStep_fold:
  assumes "k < cardCount st"
  shows "cardAt (foldl completeTween st (fst (closeStep k m))) k =
           (if isExpanded (userData m)
            then (cardAt st k)\<lparr>position := originalPosition (userData m),
                                scale := originalScale (userData m)\<rparr>
            else cardAt st k)"
proof (cases "isExpanded (userData m)")
  case False
  then show ?thesis by (simp add: closeStep_def)
next
  case True
  define tp where "tp = \<lparr>tweenMesh = k, tweenProperty = TweenPosition, tweenTo = originalPosition (userData m),
           duration = 0.6, ease = ''power2.inOut'', showsViewer = False\<rparr>"
  define ts where "ts = \<lparr>tweenMesh = k, tweenProperty = TweenScale, tweenTo = originalScale (userData m),
           duration = 0.6, ease = ''power2.inOut'', showsViewer = False\<rparr>"
  have f: "fst (closeStep k m) = [tp, ts]" using True by (simp add: closeStep_def tp_def ts_def)
  have a: "cardAt (completeTween st tp) k = (cardAt st k)\<lparr>position := originalPosition (userData m)\<rparr>"
    using completeTween_position [of tp st] assms by (simp add: tp_def)
  have "cardAt (completeTween (completeTween st tp) ts) k
        = (cardAt (completeTween st tp) k)\<lparr>scale := originalScale (userData m)\<rparr>"
    using completeTween_scale [of ts "completeTween st tp"] assms by (simp add: ts_def)
  then show ?thesis using True a by (simp add: f)
qed

lemma closeLoop_fold_before:
  assumes "i < k"
  shows "cardAt (foldl completeTween st (fst (closeLoop k ms))) i = cardAt st i"
proof (rule foldl_completeTween_other)
  show "\<forall>tw \<in> set (fst (closeLoop k ms)). tweenMesh tw \<noteq> i"
    using closeLoop_tweenMesh [of k ms] assms by auto
qed

lemma closeLoop_fold_at:
  assumes "k \<le> i" and "i < k + length ms" and "k + length ms \<le> cardCount st"
  shows "cardAt (foldl completeTween st (fst (closeLoop k ms))) i =
           (if isExpanded (userData (ms ! (i - k)))
            then (cardAt st i)\<lparr>position := originalPosition (userData (ms ! (i - k))),
                                scale := originalScale (userData (ms ! (i - k)))\<rparr>
            else cardAt st i)"
  using assms
proof (induction ms arbitrary: k st)
  case Nil
  then show ?case by simp
next
  case (Cons m ms)
  define st1 where "st1 = foldl completeTween st (fst (closeStep k m))"
  have n1: "cardCount st1 = cardCount st" by (simp add: st1_def)
  have kc: "k < cardCount st" using Cons.prems by simp
  have unf: "foldl completeTween st (fst (closeLoop k (m # ms)))
             = foldl completeTween st1 (fst (closeLoop (Suc k) ms))"
    unfolding closeLoop_tweens_Cons st1_def by simp
  show ?case
  proof (cases "i = k")
    case True
    have "cardAt (foldl completeTween st1 (fst (closeLoop (Suc k) ms))) k = cardAt st1 k"
      by (rule closeLoop_fold_before) simp
    then show ?thesis
      unfolding unf using True closeStep_fold [OF kc, of m] by (simp add: st1_def)
  next
    case False
    then have lt: "Suc k \<le> i" using Cons.prems by simp
    have other: "cardAt st1 i = cardAt st i"
      unfolding st1_def using closeStep_tweenMesh [of k m] False
      by (intro foldl_completeTween_other) auto
    have nth: "(m # ms) ! (i - k) = ms ! (i - Suc k)" using lt by (simp add: nth_Cons')
    have "cardAt (foldl completeTween st1 (fst (closeLoop (Suc k) ms))) i =
           (if isExpanded (userData (ms ! (i - Suc k)))
            then (cardAt st1 i)\<lparr>position := originalPosition (userData (ms ! (i - Suc k))),
                                scale := originalScale (userData (ms ! (i - Suc k)))\<rparr>
            else cardAt st1 i)"
      using Cons.prems lt n1 by (intro Cons.IH) simp_all
    then show ?thesis unfolding unf nth other .
  qed
qed

text \<open>The card that \<open>closeViewer\<close> returns to its place, once its tweens have completed.\<close>

lemma close_returned:
  assumes i: "i < cardCount st" and idle: "tweens st = []"
  shows "cardAt (closeViewer st) i = (cardAt st i)\<lparr>userData := (userData (cardAt st i))\<lparr>isExpanded := False\<rparr>\<rparr>"
    and "\<not> viewerVisible (closeViewer st)"
    and "selectedOrnament (closeViewer st) = None"
    and "cardAt (runTweens (closeViewer st)) i =
           (if isExpanded (userData (cardAt st i))
            then (cardAt st i)\<lparr>position := originalPosition (userData (cardAt st i)),
                                scale := originalScale (userData (cardAt st i)),
                                userData := (userData (cardAt st i))\<lparr>isExpanded := False\<rparr>\<rparr>
            else cardAt st i)"
proof -
  define ms where "ms = ornaments (ornamentSystem st)"
  define st1 where "st1 = closeViewer st"
  have cards1: "ornaments (ornamentSystem st1)
                = map (\<lambda>m. m\<lparr>userData := (userData m)\<lparr>isExpanded := False\<rparr>\<rparr>) ms"
    by (simp add: st1_def closeViewer_def split_def Let_def closeLoop_cards ms_def)
  have tw1: "tweens st1 = fst (closeLoop 0 ms)"
    by (simp add: st1_def closeViewer_def split_def Let_def idle ms_def)
  have len: "i < length ms" using i by (simp add: ms_def cardCount_def)
  have c1: "cardAt st1 i = (cardAt st i)\<lparr>userData := (userData (cardAt st i))\<lparr>isExpanded := False\<rparr>\<rparr>"
    using len by (simp add: cardAt_def cards1 ms_def)
  have n1: "cardCount st1 = length ms" by (simp add: cardCount_def cards1)
  show "cardAt (closeViewer st) i = (cardAt st i)\<lparr>userData := (userData (cardAt st i))\<lparr>isExpanded := False\<rparr>\<rparr>"
    using c1 by (simp add: st1_def)
  show "\<not> viewerVisible (closeViewer st)" by (simp add: closeViewer_def split_def Let_def)
  show "selectedOrnament (closeViewer st) = None" by (simp add: closeViewer_def split_def Let_def)
  have "cardAt (foldl completeTween st1 (fst (closeLoop 0 ms))) i =
           (if isExpanded (userData (ms ! (i - 0)))
            then (cardAt st1 i)\<lparr>position := originalPosition (userData (ms ! (i - 0))),
                                 scale := originalScale (userData (ms ! (i - 0)))\<rparr>
            else cardAt st1 i)"
    using len n1 by (intro closeLoop_fold_at) simp_all
  then have "cardAt (runTweens st1) i =
           (if isExpanded (userData (cardAt st i))
            then (cardAt st1 i)\<lparr>position := originalPosition (userData (cardAt st i)),
                                 scale := originalScale (userData (cardAt st i))\<rparr>
            else cardAt st1 i)"
    by (simp add: runTweens_def tw1 cardAt_def ms_def)
  then show "cardAt (runTweens (closeViewer st)) i =
           (if isExpanded (userData (cardAt st i))
            then (cardAt st i)\<lparr>position := originalPosition (userData (cardAt st i)),
                                scale := originalScale (userData (cardAt st i)),
                                userData := (userData (cardAt st i))\<lparr>isExpanded := False\<rparr>\<rparr>
            else cardAt st i)"
    unfolding st1_def [symmetric] c1 by (cases "isExpanded (userData (cardAt st i))") simp_all
qed


lemma vlength_multiplyScalar: "vlength (multiplyScalar v s) = \<bar>s\<bar> * vlength v"
proof -
  have "vx v * s * (vx v * s) + vy v * s * (vy v * s) + vz v * s * (vz v * s)
        = s\<^sup>2 * (vx v * vx v + vy v * vy v + vz v * vz v)"
    by (simp add: power2_eq_square algebra_simps)
  then show ?thesis
    by (simp add: vlength_def multiplyScalar_def real_sqrt_mult)
qed

lemma normalize_351:
  "normalize (Vector3 3 5 1) = Vector3 (3 / sqrt 35) (5 / sqrt 35) (1 / sqrt 35)"
  by (simp add: normalize_def divideScalar_def multiplyScalar_def vlength_def Vector3_def)

lemma pulled_out_351:
  "vadd (Vector3 3 5 1) (multiplyScalar (normalize (Vector3 3 5 1)) 2.0)
   = Vector3 (3 + 6 / sqrt 35) (5 + 10 / sqrt 35) (1 + 2 / sqrt 35)"
  unfolding normalize_351 by (simp add: vadd_def multiplyScalar_def Vector3_def)

text \<open>
  C5, as the code has it. For a card whose \<open>originalPosition\<close> is \<open>(3, 5, 1)\<close>, a click
  on the card or on its hit box starts tweens that end with the scale at
  \<open>originalScale * 1.5\<close> and the position at \<open>originalPosition\<close> moved by 2 units along
  the normalized \<open>originalPosition\<close> itself, \<open>(3, 5, 1) / sqrt 35\<close>; the completion marks
  the card \<open>isExpanded\<close> and shows the viewer. The close signal clears the flag and hides
  the viewer, and its tweens end with position and scale at the stored original values.
\<close>

theorem card_click_then_close:
  assumes i: "i < cardCount st"
    and orig: "originalPosition (userData (cardAt st i)) = Vector3 3 5 1"
    and obj: "obj = CardMesh i \<or> obj = HitBoxOf i"
  shows "let opened = runTweens (handleOrnamentClick obj st);
             closed = runTweens (closeViewer opened)
         in position (cardAt opened i)
              = vadd (Vector3 3 5 1) (multiplyScalar (normalize (Vector3 3 5 1)) 2.0)
          \<and> position (cardAt opened i)
              = Vector3 (3 + 6 / sqrt 35) (5 + 10 / sqrt 35) (1 + 2 / sqrt 35)
          \<and> vlength (multiplyScalar (normalize (Vector3 3 5 1)) 2.0) = 2
          \<and> scale (cardAt opened i)
              = Vector3 (vx (originalScale (userData (cardAt st i))) * 1.5)
                  (vy (originalScale (userData (cardAt st i))) * 1.5)
                  (vz (originalScale (userData (cardAt st i))) * 1.5)
          \<and> isExpanded (userData (cardAt opened i))
          \<and> viewerVisible opened
          \<and> selectedOrnament opened = Some i
          \<and> \<not> isExpanded (userData (cardAt (closeViewer opened) i))
          \<and> \<not> viewerVisible (closeViewer opened)
          \<and> position (cardAt closed i) = Vector3 3 5 1
          \<and> scale (cardAt closed i) = originalScale (userData (cardAt st i))
          \<and> \<not> isExpanded (userData (cardAt closed i))"
proof -
  define opened where "opened = runTweens (handleOrnamentClick obj st)"
  define closed where "closed = runTweens (closeViewer opened)"
  note o = click_opened [OF i obj, folded opened_def]
  have io: "i < cardCount opened" using o(5) i by simp
  note c = close_returned [OF io o(4), folded closed_def]
  have ex: "isExpanded (userData (cardAt opened i))" by (simp add: o(1))
  have p1: "position (cardAt opened i)
              = vadd (Vector3 3 5 1) (multiplyScalar (normalize (Vector3 3 5 1)) 2.0)"
    by (simp add: o(1) orig)
  have p2: "position (cardAt opened i)
              = Vector3 (3 + 6 / sqrt 35) (5 + 10 / sqrt 35) (1 + 2 / sqrt 35)"
    unfolding p1 by (rule pulled_out_351)
  have "vlength (Vector3 3 5 1) \<noteq> 0" by (simp add: vlength_def Vector3_def)
  then have two: "vlength (multiplyScalar (normalize (Vector3 3 5 1)) 2.0) = 2"
    by (simp add: vlength_multiplyScalar normalize_unit)
  have s1: "scale (cardAt opened i)
              = Vector3 (vx (originalScale (userData (cardAt st i))) * 1.5)
                  (vy (originalScale (userData (cardAt st i))) * 1.5)
                  (vz (originalScale (userData (cardAt st i))) * 1.5)"
    by (simp add: o(1))
  have n1: "\<not> isExpanded (userData (cardAt (closeViewer opened) i))" by (simp add: c(1))
  have cl: "cardAt closed i =
              (cardAt opened i)\<lparr>position := originalPosition (userData (cardAt opened i)),
                                  scale := originalScale (userData (cardAt opened i)),
                                  userData := (userData (cardAt opened i))\<lparr>isExpanded := False\<rparr>\<rparr>"
    using c(4) ex by simp
  have p3: "position (cardAt closed i) = Vector3 3 5 1" by (simp add: cl o(1) orig)
  have s3: "scale (cardAt closed i) = originalScale (userData (cardAt st i))" by (simp add: cl o(1))
  have n3: "\<not> isExpanded (userData (cardAt closed i))" by (simp add: cl)
  show ?thesis
    unfolding Let_def opened_def [symmetric] closed_def [symmetric]
    using p1 p2 two s1 ex o(2) o(3) n1 c(2) p3 s3 n3 by blast
qed

theorem card_click_then_close_witness:
  "position (cardAt (runTweens (handleOrnamentClick (HitBoxOf 0) exampleView)) 0)
     = Vector3 (3 + 6 / sqrt 35) (5 + 10 / sqrt 35) (1 + 2 / sqrt 35)
   \<and> position (cardAt (runTweens (closeViewer (runTweens (handleOrnamentClick (HitBoxOf 0) exampleView)))) 0)
     = Vector3 3 5 1"
proof -
  have i: "0 < cardCount exampleView"
    by (simp add: cardCount_def exampleView_def exampleCards_def)
  have orig: "originalPosition (userData (cardAt exampleView 0)) = Vector3 3 5 1"
    by (simp add: cardAt_def exampleView_def exampleCards_def exampleCard_def)
  have obj: "HitBoxOf 0 = CardMesh 0 \<or> HitBoxOf 0 = HitBoxOf 0" by simp
  show ?thesis
    using card_click_then_close [OF i orig obj] unfolding Let_def by blast
qed

text \<open>
  The end position of the click tween is not the original position moved along the
  horizontal direction \<open>(3, 0, 1)\<close>: the height changes too.
\<close>

theorem card_click_direction_counterexample:
  "originalPosition (userData (cardAt exampleView 0)) = Vector3 3 5 1
   \<and> position (cardAt (runTweens (handleOrnamentClick (CardMesh 0) exampleView)) 0)
       \<noteq> vadd (Vector3 3 5 1) (multiplyScalar (normalize (Vector3 3 0 1)) 2.0)"
proof -
  have i: "0 < cardCount exampleView"
    by (simp add: cardCount_def exampleView_def exampleCards_def)
  have orig: "originalPosition (userData (cardAt exampleView 0)) = Vector3 3 5 1"
    by (simp add: cardAt_def exampleView_def exampleCards_def exampleCard_def)
  have "position (cardAt (runTweens (handleOrnamentClick (CardMesh 0) exampleView)) 0)
        = vadd (Vector3 3 5 1) (multiplyScalar (normalize (Vector3 3 5 1)) 2.0)"
    using click_opened(1) [OF i, of "CardMesh 0"] by (simp add: orig)
  then have y: "vy (position (cardAt (runTweens (handleOrnamentClick (CardMesh 0) exampleView)) 0))
                = 5 + 10 / sqrt 35"
    unfolding pulled_out_351 by (simp add: Vector3_def)
  have "vy (vadd (Vector3 3 5 1) (multiplyScalar (normalize (Vector3 3 0 1)) 2.0)) = 5"
    by (simp add: vadd_def multiplyScalar_def normalize_def divideScalar_def Vector3_def)
  moreover have "5 + 10 / sqrt 35 \<noteq> (5::real)" by simp
  ultimately have "position (cardAt (runTweens (handleOrnamentClick (CardMesh 0) exampleView)) 0)
       \<noteq> vadd (Vector3 3 5 1) (multiplyScalar (normalize (Vector3 3 0 1)) 2.0)"
    using y by metis
  with orig show ?thesis by blast
qed

end
